theory Spec2Isabelle
  imports Complex_Main
begin

section \<open>JSON documents and Python's dictionary operations\<close>

text \<open>
  The plan document, the fingerprint document and the resolved parameter document are
  what \<^verbatim>\<open>json.load\<close> returns and \<^verbatim>\<open>json.dump\<close> writes. A dictionary keeps its
  insertion order (\<^verbatim>\<open>list(d.keys())\<close> is printed in an error message), so it is an
  association list.
\<close>

datatype json =
    JNull
  | JBool bool
  | JInt int
  | JFloat real
  | JStr string
  | JList "json list"
  | JDict "(string \<times> json) list"

text \<open>
  The pieces of an f-string, kept apart: literal text, a string formatted with
  \<^verbatim>\<open>{x}\<close>, and a value formatted by its \<^verbatim>\<open>repr\<close>.
\<close>

datatype fpart = Lit string | FStr string | FRepr json

datatype py_error =
    KeyError json
  | TypeError
  | AttributeError
  | IndexError
  | ValueError "fpart list"
  | AxisError

definition py_bind :: "py_error + 'a \<Rightarrow> ('a \<Rightarrow> py_error + 'b) \<Rightarrow> py_error + 'b" where
  "py_bind m f = (case m of Inl e \<Rightarrow> Inl e | Inr v \<Rightarrow> f v)"

text \<open>\<^verbatim>\<open>d[k]\<close> with a string key: only a dictionary accepts it.\<close>

definition subscript :: "json \<Rightarrow> string \<Rightarrow> py_error + json" where
  "subscript d k =
     (case d of
        JDict kvs \<Rightarrow> (case map_of kvs k of None \<Rightarrow> Inl (KeyError (JStr k)) | Some v \<Rightarrow> Inr v)
      | _ \<Rightarrow> Inl TypeError)"

text \<open>\<^verbatim>\<open>d.get(k, default)\<close>: a method of dictionaries only.\<close>

definition py_get :: "json \<Rightarrow> string \<Rightarrow> json \<Rightarrow> py_error + json" where
  "py_get d k dflt =
     (case d of
        JDict kvs \<Rightarrow> (case map_of kvs k of None \<Rightarrow> Inr dflt | Some v \<Rightarrow> Inr v)
      | _ \<Rightarrow> Inl AttributeError)"

text \<open>\<^verbatim>\<open>list(d.keys())\<close>.\<close>

definition py_keys :: "json \<Rightarrow> py_error + string list" where
  "py_keys d = (case d of JDict kvs \<Rightarrow> Inr (map fst kvs) | _ \<Rightarrow> Inl AttributeError)"

fun starts_with :: "string \<Rightarrow> string \<Rightarrow> bool" where
  "starts_with s [] = True"
| "starts_with [] (p # ps) = False"
| "starts_with (c # cs) (p # ps) = (c = p \<and> starts_with cs ps)"

fun str_contains :: "string \<Rightarrow> string \<Rightarrow> bool" where
  "str_contains [] k = (k = [])"
| "str_contains (c # cs) k = (starts_with (c # cs) k \<or> str_contains cs k)"

text \<open>
  \<^verbatim>\<open>k in c\<close> for a string \<^verbatim>\<open>k\<close>: a key of a dictionary, an element of a list, a
  substring of a string; anything else is not iterable.
\<close>

definition py_in :: "string \<Rightarrow> json \<Rightarrow> py_error + bool" where
  "py_in k c =
     (case c of
        JDict kvs \<Rightarrow> Inr (k \<in> set (map fst kvs))
      | JList xs \<Rightarrow> Inr (JStr k \<in> set xs)
      | JStr s \<Rightarrow> Inr (str_contains s k)
      | _ \<Rightarrow> Inl TypeError)"

text \<open>Truth value of a JSON value in a condition.\<close>

fun truthy :: "json \<Rightarrow> bool" where
  "truthy JNull = False"
| "truthy (JBool b) = b"
| "truthy (JInt i) = (i \<noteq> 0)"
| "truthy (JFloat x) = (x \<noteq> 0)"
| "truthy (JStr s) = (s \<noteq> [])"
| "truthy (JList xs) = (xs \<noteq> [])"
| "truthy (JDict kvs) = (kvs \<noteq> [])"

text \<open>
  \<^verbatim>\<open>v[0]\<close>: the first element of a list, the first character of a string; a
  dictionary read from JSON has string keys only, so the key \<^verbatim>\<open>0\<close> is missing.
\<close>

fun index0 :: "json \<Rightarrow> py_error + json" where
  "index0 (JList []) = Inl IndexError"
| "index0 (JList (x # xs)) = Inr x"
| "index0 (JStr []) = Inl IndexError"
| "index0 (JStr (c # cs)) = Inr (JStr [c])"
| "index0 (JDict kvs) = Inl (KeyError (JInt 0))"
| "index0 v = Inl TypeError"

section \<open>The Configuration Resolver: \<^verbatim>\<open>extract_preprocessing_params\<close>\<close>

definition identity_axes :: json where
  "identity_axes = JList [JInt 0, JInt 1, JInt 2]"

definition default_data_kwargs :: json where
  "default_data_kwargs =
     JDict [(''is_seg'', JBool False), (''order'', JInt 3), (''order_z'', JInt 0),
            (''force_separate_z'', JNull)]"

definition default_seg_kwargs :: json where
  "default_seg_kwargs =
     JDict [(''is_seg'', JBool True), (''order'', JInt 1), (''order_z'', JInt 0),
            (''force_separate_z'', JNull)]"

text \<open>
  \<^verbatim>\<open>fingerprint.get("shapes_after_crop", [[]])[0] if fingerprint.get("shapes_after_crop") else []\<close>:
  the condition is evaluated first.
\<close>

definition original_median_shape :: "json \<Rightarrow> py_error + json" where
  "original_median_shape fingerprint =
     py_bind (py_get fingerprint ''shapes_after_crop'' JNull) (\<lambda>c.
       if truthy c
       then py_bind (py_get fingerprint ''shapes_after_crop'' (JList [JList []])) index0
       else Inr (JList []))"

text \<open>
  The dictionary literal \<^verbatim>\<open>params = {...}\<close>; its entries are evaluated in the order
  they are written, and the first one that raises ends the function.
\<close>

definition build_params :: "json \<Rightarrow> json \<Rightarrow> json \<Rightarrow> string \<Rightarrow> py_error + (string \<times> json) list" where
  "build_params plans config fingerprint configuration =
     py_bind (subscript config ''spacing'') (\<lambda>target_spacing.
     py_bind (subscript config ''patch_size'') (\<lambda>patch_size.
     py_bind (py_get plans ''transpose_forward'' identity_axes) (\<lambda>transpose_forward.
     py_bind (py_get plans ''transpose_backward'' identity_axes) (\<lambda>transpose_backward.
     py_bind (subscript config ''normalization_schemes'') (\<lambda>normalization_schemes.
     py_bind (py_get config ''use_mask_for_norm'' (JList [JBool False])) (\<lambda>use_mask_for_norm.
     py_bind (py_get fingerprint ''foreground_intensity_properties_per_channel'' (JDict []))
       (\<lambda>foreground_intensity_properties.
     py_bind (py_get config ''resampling_fn_data'' (JStr ''resample_data_or_seg_to_shape''))
       (\<lambda>resampling_fn_data.
     py_bind (py_get config ''resampling_fn_data_kwargs'' default_data_kwargs)
       (\<lambda>resampling_fn_data_kwargs.
     py_bind (py_get config ''resampling_fn_seg'' (JStr ''resample_data_or_seg_to_shape''))
       (\<lambda>resampling_fn_seg.
     py_bind (py_get config ''resampling_fn_seg_kwargs'' default_seg_kwargs)
       (\<lambda>resampling_fn_seg_kwargs.
     py_bind (py_get fingerprint ''spacing'' (JList [])) (\<lambda>original_spacing.
     py_bind (original_median_shape fingerprint) (\<lambda>median_shape.
       Inr [(''configuration_name'', JStr configuration),
            (''target_spacing'', target_spacing),
            (''patch_size'', patch_size),
            (''transpose_forward'', transpose_forward),
            (''transpose_backward'', transpose_backward),
            (''normalization_schemes'', normalization_schemes),
            (''use_mask_for_norm'', use_mask_for_norm),
            (''foreground_intensity_properties'', foreground_intensity_properties),
            (''resampling_fn_data'', resampling_fn_data),
            (''resampling_fn_data_kwargs'', resampling_fn_data_kwargs),
            (''resampling_fn_seg'', resampling_fn_seg),
            (''resampling_fn_seg_kwargs'', resampling_fn_seg_kwargs),
            (''anisotropy_threshold'', JFloat 3),
            (''original_spacing'', original_spacing),
            (''original_median_shape'', median_shape)])))))))))))))"

definition required_keys :: "string list" where
  "required_keys = [''mean'', ''std'', ''percentile_00_5'', ''percentile_99_5'']"

text \<open>\<^verbatim>\<open>[k for k in required_keys if k not in channel_props]\<close>.\<close>

fun missing_keys :: "string list \<Rightarrow> json \<Rightarrow> py_error + string list" where
  "missing_keys [] channel_props = Inr []"
| "missing_keys (k # ks) channel_props =
     py_bind (py_in k channel_props) (\<lambda>present.
     py_bind (missing_keys ks channel_props) (\<lambda>rest.
       Inr (if \<not> present then k # rest else rest)))"

text \<open>
  The block after the literal: the check of the CT statistics. It returns nothing;
  it only raises.
\<close>

definition missing_ct_parameters :: "string list \<Rightarrow> string list \<Rightarrow> py_error" where
  "missing_ct_parameters missing available =
     ValueError [Lit ''Missing CT normalization parameters: '',
                 FRepr (JList (map JStr missing)),
                 Lit ''. Available keys: '',
                 FRepr (JList (map JStr available))]"

definition validate_ct :: "json \<Rightarrow> (string \<times> json) list \<Rightarrow> py_error + unit" where
  "validate_ct config params =
     py_bind (subscript config ''normalization_schemes'') (\<lambda>schemes.
     py_bind (py_in ''CTNormalization'' schemes) (\<lambda>ct.
       if ct then
         py_bind (subscript (JDict params) ''foreground_intensity_properties'') (\<lambda>props.
         py_bind (py_get props ''0'' (JDict [])) (\<lambda>channel_props.
         py_bind (missing_keys required_keys channel_props) (\<lambda>missing.
           if missing \<noteq> [] then
             py_bind (py_keys channel_props) (\<lambda>available.
               Inl (missing_ct_parameters missing available))
           else Inr ())))
       else Inr ()))"

text \<open>
  The message of the first \<^verbatim>\<open>raise\<close>:
  \<^verbatim>\<open>f"Configuration '{configuration}' not found. Available: {available}"\<close>.
\<close>

definition configuration_not_found :: "string \<Rightarrow> string list \<Rightarrow> py_error" where
  "configuration_not_found configuration available =
     ValueError [Lit (''Configuration '' @ [CHR 0x27]), FStr configuration,
                 Lit (CHR 0x27 # '' not found. Available: ''),
                 FRepr (JList (map JStr available))]"

text \<open>The membership test, the error and the lookup of the configuration's entry.\<close>

definition lookup_configuration :: "json \<Rightarrow> string \<Rightarrow> py_error + json" where
  "lookup_configuration plans configuration =
     py_bind (subscript plans ''configurations'') (\<lambda>configurations.
     py_bind (py_in configuration configurations) (\<lambda>present.
       if \<not> present then
         py_bind (py_keys configurations) (\<lambda>available.
           Inl (configuration_not_found configuration available))
       else subscript configurations configuration))"

definition extract_preprocessing_params ::
  "json \<Rightarrow> json \<Rightarrow> string \<Rightarrow> py_error + (string \<times> json) list" where
  "extract_preprocessing_params plans fingerprint configuration =
     py_bind (lookup_configuration plans configuration) (\<lambda>config.
     py_bind (build_params plans config fingerprint configuration) (\<lambda>params.
     py_bind (validate_ct config params) (\<lambda>_. Inr params)))"

definition param_fields :: "string list" where
  "param_fields =
     [''configuration_name'', ''target_spacing'', ''patch_size'', ''transpose_forward'',
      ''transpose_backward'', ''normalization_schemes'', ''use_mask_for_norm'',
      ''foreground_intensity_properties'', ''resampling_fn_data'',
      ''resampling_fn_data_kwargs'', ''resampling_fn_seg'', ''resampling_fn_seg_kwargs'',
      ''anisotropy_threshold'', ''original_spacing'', ''original_median_shape'']"

section \<open>Volumes\<close>

text \<open>
  A volume is a three-dimensional array of samples with its shape (numpy keeps the
  shape also when an axis has length zero) and a spacing vector. Samples and spacings are
  real numbers: the arithmetic of the stages is modelled exactly, without the rounding of
  the machine's floating-point formats.
\<close>

record ndarray =
  shape :: "nat list"
  data :: "real list list list"

definition well_formed :: "ndarray \<Rightarrow> bool" where
  "well_formed a =
     (length (shape a) = 3 \<and> length (data a) = shape a ! 0 \<and>
      list_all (\<lambda>plane. length plane = shape a ! 1 \<and>
                 list_all (\<lambda>row. length row = shape a ! 2) plane) (data a))"

definition at3 :: "ndarray \<Rightarrow> nat \<Rightarrow> nat \<Rightarrow> nat \<Rightarrow> real" where
  "at3 a i j k = data a ! i ! j ! k"

definition tabulate3 :: "nat list \<Rightarrow> (nat \<Rightarrow> nat \<Rightarrow> nat \<Rightarrow> real) \<Rightarrow> ndarray" where
  "tabulate3 s f =
     \<lparr>shape = s,
      data = map (\<lambda>i. map (\<lambda>j. map (\<lambda>k. f i j k) [0..<s ! 2]) [0..<s ! 1]) [0..<s ! 0]\<rparr>"

definition array_map :: "(real \<Rightarrow> real) \<Rightarrow> ndarray \<Rightarrow> ndarray" where
  "array_map f a = a\<lparr>data := map (map (map f)) (data a)\<rparr>"

text \<open>A JSON number read as a sample value; a list of them read as a vector.\<close>

fun as_number :: "json \<Rightarrow> py_error + real" where
  "as_number (JInt i) = Inr (of_int i)"
| "as_number (JFloat x) = Inr x"
| "as_number (JBool b) = Inr (if b then 1 else 0)"
| "as_number v = Inl TypeError"

fun as_int :: "json \<Rightarrow> py_error + int" where
  "as_int (JInt i) = Inr i"
| "as_int v = Inl TypeError"

fun sequence_err :: "(py_error + 'a) list \<Rightarrow> py_error + 'a list" where
  "sequence_err [] = Inr []"
| "sequence_err (m # ms) =
     py_bind m (\<lambda>v. py_bind (sequence_err ms) (\<lambda>vs. Inr (v # vs)))"

definition as_ints :: "json \<Rightarrow> py_error + int list" where
  "as_ints v = (case v of JList xs \<Rightarrow> sequence_err (map as_int xs) | _ \<Rightarrow> Inl TypeError)"

section \<open>Stage 2: transpose (\<^verbatim>\<open>generate_fixtures\<close>)\<close>

text \<open>An axis number or an index may be negative: it then counts from the end.\<close>

definition normalize_index :: "nat \<Rightarrow> py_error \<Rightarrow> int \<Rightarrow> py_error + nat" where
  "normalize_index n err i =
     (if - int n \<le> i \<and> i < int n then Inr (nat (if i < 0 then i + int n else i))
      else Inl err)"

text \<open>
  \<^verbatim>\<open>np.transpose(a, axes)\<close>: axis \<open>n\<close> of the result is axis \<open>axes[n]\<close> of \<open>a\<close>, so
  the sample at index \<open>(i0, i1, i2)\<close> of the result is the sample of \<open>a\<close> at the index
  \<open>j\<close> with \<open>j[axes[n]] = i_n\<close>.
\<close>

definition np_transpose :: "ndarray \<Rightarrow> int list \<Rightarrow> py_error + ndarray" where
  "np_transpose a axes =
     (if length axes \<noteq> length (shape a)
      then Inl (ValueError [Lit (''axes don'' @ [CHR 0x27] @ ''t match array'')])
      else py_bind (sequence_err (map (normalize_index (length (shape a)) AxisError) axes))
        (\<lambda>perm.
          if \<not> distinct perm then Inl (ValueError [Lit ''repeated axis in transpose''])
          else Inr (tabulate3 (map (\<lambda>n. shape a ! n) perm)
                 (\<lambda>i0 i1 i2.
                    let j = [0, 0, 0][perm ! 0 := i0, perm ! 1 := i1, perm ! 2 := i2]
                    in at3 a (j ! 0) (j ! 1) (j ! 2)))))"

text \<open>\<^verbatim>\<open>spacing[axes]\<close>: indexing a vector with a list of indices.\<close>

definition take_indices :: "real list \<Rightarrow> int list \<Rightarrow> py_error + real list" where
  "take_indices v idx =
     py_bind (sequence_err (map (normalize_index (length v) IndexError) idx))
       (\<lambda>is. Inr (map (\<lambda>i. v ! i) is))"

definition transpose_volume ::
  "ndarray \<Rightarrow> real list \<Rightarrow> int list \<Rightarrow> py_error + ndarray \<times> real list" where
  "transpose_volume current spacing axes =
     py_bind (np_transpose current axes) (\<lambda>transposed.
     py_bind (take_indices spacing axes) (\<lambda>transposed_spacing.
       Inr (transposed, transposed_spacing)))"

definition transpose_stage ::
  "json \<Rightarrow> ndarray \<Rightarrow> real list \<Rightarrow> py_error + ndarray \<times> real list" where
  "transpose_stage plans current spacing =
     py_bind (py_get plans ''transpose_forward'' identity_axes) (\<lambda>transpose_forward.
     py_bind (as_ints transpose_forward) (\<lambda>axes.
       transpose_volume current spacing axes))"

text \<open>Two lists of axis numbers that undo each other.\<close>

definition mutual_inverses :: "int list \<Rightarrow> int list \<Rightarrow> bool" where
  "mutual_inverses forward backward =
     (length forward = 3 \<and> length backward = 3 \<and>
      list_all (\<lambda>x. 0 \<le> x \<and> x < 3) forward \<and> list_all (\<lambda>x. 0 \<le> x \<and> x < 3) backward \<and>
      list_all (\<lambda>n. forward ! nat (backward ! n) = int n \<and>
                     backward ! nat (forward ! n) = int n) [0, 1, 2])"

section \<open>Stage 3: crop to nonzero\<close>

definition nonzero_mask :: "ndarray \<Rightarrow> bool list list list" where
  "nonzero_mask current = map (map (map (\<lambda>x. x \<noteq> 0))) (data current)"

definition mask_any :: "bool list list list \<Rightarrow> bool" where
  "mask_any m = list_ex (list_ex (list_ex (\<lambda>b. b))) m"

text \<open>
  \<^verbatim>\<open>nonzero_mask.any(axis=...)\<close> over the two other axes: entry \<open>n\<close> tells whether the
  slice at position \<open>n\<close> of the axis holds a nonzero sample.
\<close>

definition axis_mask :: "bool list list list \<Rightarrow> nat list \<Rightarrow> nat \<Rightarrow> bool list" where
  "axis_mask m s axis =
     (if axis = 0 then
        map (\<lambda>i. list_ex (\<lambda>j. list_ex (\<lambda>k. m ! i ! j ! k) [0..<s ! 2]) [0..<s ! 1]) [0..<s ! 0]
      else if axis = 1 then
        map (\<lambda>j. list_ex (\<lambda>i. list_ex (\<lambda>k. m ! i ! j ! k) [0..<s ! 2]) [0..<s ! 0]) [0..<s ! 1]
      else
        map (\<lambda>k. list_ex (\<lambda>i. list_ex (\<lambda>j. m ! i ! j ! k) [0..<s ! 1]) [0..<s ! 0]) [0..<s ! 2])"

text \<open>\<^verbatim>\<open>np.where(axis_mask)[0]\<close>: the positions that are true, in increasing order.\<close>

definition np_where :: "bool list \<Rightarrow> nat list" where
  "np_where bs = filter (\<lambda>i. bs ! i) [0..<length bs]"

definition axis_bbox :: "bool list list list \<Rightarrow> nat list \<Rightarrow> nat \<Rightarrow> nat \<times> nat" where
  "axis_bbox m s axis =
     (let indices = np_where (axis_mask m s axis)
      in if length indices > 0 then (hd indices, last indices + 1) else (0, s ! axis))"

text \<open>\<^verbatim>\<open>xs[lo:hi]\<close> for bounds that are not negative.\<close>

definition py_slice :: "nat \<times> nat \<Rightarrow> 'a list \<Rightarrow> 'a list" where
  "py_slice b xs = drop (fst b) (take (snd b) xs)"

definition slice_len :: "nat \<times> nat \<Rightarrow> nat \<Rightarrow> nat" where
  "slice_len b n = min (snd b) n - min (fst b) n"

definition slice3 :: "(nat \<times> nat) list \<Rightarrow> ndarray \<Rightarrow> ndarray" where
  "slice3 bbox a =
     \<lparr>shape = map (\<lambda>n. slice_len (bbox ! n) (shape a ! n)) [0..<length (shape a)],
      data = map (\<lambda>plane. map (py_slice (bbox ! 2)) (py_slice (bbox ! 1) plane))
               (py_slice (bbox ! 0) (data a))\<rparr>"

definition crop_to_nonzero :: "ndarray \<Rightarrow> ndarray \<times> (nat \<times> nat) list" where
  "crop_to_nonzero current =
     (let m = nonzero_mask current in
      if mask_any m then
        (let bbox = map (axis_bbox m (shape current)) [0..<length (shape current)]
         in (slice3 bbox current, bbox))
      else (current, map (\<lambda>s. (0, s)) (shape current)))"

section \<open>Stage 4: CT normalization\<close>

text \<open>\<^verbatim>\<open>np.clip(x, lower, upper)\<close> is \<^verbatim>\<open>minimum(upper, maximum(x, lower))\<close>.\<close>

definition np_clip :: "real \<Rightarrow> real \<Rightarrow> real \<Rightarrow> real" where
  "np_clip x lower upper = min upper (max x lower)"

definition ct_normalize :: "real \<Rightarrow> real \<Rightarrow> real \<Rightarrow> real \<Rightarrow> ndarray \<Rightarrow> ndarray" where
  "ct_normalize mean std lower upper current =
     array_map (\<lambda>x. (x - mean) / max std (1 / 10 ^ 8))
       (array_map (\<lambda>x. np_clip x lower upper) current)"

text \<open>
  The statistics are JSON numbers; the model makes any other value a \<open>TypeError\<close>, in the
  order numpy meets them (\<open>lower\<close> and \<open>upper\<close> in the clip, then \<open>mean\<close>, then \<open>std\<close>).
\<close>

definition apply_ct :: "json \<Rightarrow> json \<Rightarrow> json \<Rightarrow> json \<Rightarrow> ndarray \<Rightarrow> py_error + ndarray" where
  "apply_ct mean std lower upper current =
     py_bind (as_number lower) (\<lambda>lo.
     py_bind (as_number upper) (\<lambda>hi.
     py_bind (as_number mean) (\<lambda>m.
     py_bind (as_number std) (\<lambda>s.
       Inr (ct_normalize m s lo hi current)))))"

text \<open>In \<^verbatim>\<open>generate_fixtures\<close> the statistics are read with \<^verbatim>\<open>[...]\<close>.\<close>

definition normalization_stage :: "json \<Rightarrow> json \<Rightarrow> ndarray \<Rightarrow> py_error + ndarray" where
  "normalization_stage config fingerprint current =
     py_bind (subscript config ''normalization_schemes'') (\<lambda>schemes.
     py_bind (py_in ''CTNormalization'' schemes) (\<lambda>ct.
       if ct then
         py_bind (subscript fingerprint ''foreground_intensity_properties_per_channel'')
           (\<lambda>per_channel.
         py_bind (subscript per_channel ''0'') (\<lambda>props.
         py_bind (subscript props ''mean'') (\<lambda>mean.
         py_bind (subscript props ''std'') (\<lambda>std.
         py_bind (subscript props ''percentile_00_5'') (\<lambda>lower.
         py_bind (subscript props ''percentile_99_5'') (\<lambda>upper.
           apply_ct mean std lower upper current))))))
       else Inr current))"

text \<open>In \<^verbatim>\<open>generate_synthetic_fixtures\<close> they are read with \<^verbatim>\<open>.get\<close> and defaults.\<close>

definition normalization_stage_synthetic :: "json \<Rightarrow> ndarray \<Rightarrow> py_error + ndarray" where
  "normalization_stage_synthetic params current =
     py_bind (py_get params ''normalization_schemes'' (JList [])) (\<lambda>schemes.
     py_bind (py_in ''CTNormalization'' schemes) (\<lambda>ct.
       if ct then
         py_bind (subscript params ''foreground_intensity_properties'') (\<lambda>per_channel.
         py_bind (py_get per_channel ''0'' (JDict [])) (\<lambda>props.
         py_bind (py_get props ''mean'' (JFloat (201 / 2))) (\<lambda>mean.
         py_bind (py_get props ''std'' (JFloat (251 / 5))) (\<lambda>std.
         py_bind (py_get props ''percentile_00_5'' (JFloat (- 1024))) (\<lambda>lower.
         py_bind (py_get props ''percentile_99_5'' (JFloat 1500)) (\<lambda>upper.
           apply_ct mean std lower upper current))))))
       else Inr current))"

section \<open>Stage 5: resample to the target spacing\<close>

subsection \<open>The float64 arithmetic of numpy\<close>

text \<open>
  The spacings are float64 arrays and the target shape is computed in float64: a value is
  a real number that the format represents, an infinity or a NaN. Every operation gives
  the exact result rounded to the nearest representable value, ties to the even
  mantissa. The sign of a zero is not modelled.
\<close>

datatype f64 = Finite real | PosInf | NegInf | NaN

text \<open>Rounding half to even, as \<^verbatim>\<open>np.round\<close> and the arithmetic itself do.\<close>

definition np_round :: "real \<Rightarrow> int" where
  "np_round x =
     (let f = \<lfloor>x\<rfloor>; d = x - of_int f
      in if d < 1 / 2 then f else if 1 / 2 < d then f + 1 else if even f then f else f + 1)"

definition pow2 :: "int \<Rightarrow> real" where
  "pow2 e = (if 0 \<le> e then 2 ^ nat e else 1 / 2 ^ nat (- e))"

text \<open>
  The binary exponent of a positive number \<open>a\<close>, the \<open>e\<close> with \<open>2^e \<le> a < 2^(e+1)\<close>, found
  by halving or doubling; the first argument bounds the number of steps.
\<close>

fun bin_exponent :: "nat \<Rightarrow> real \<Rightarrow> int" where
  "bin_exponent 0 a = 0"
| "bin_exponent (Suc n) a =
     (if 2 \<le> a then bin_exponent n (a / 2) + 1
      else if a < 1 then bin_exponent n (2 * a) - 1
      else 0)"

text \<open>
  The nearest float64. The format has 53 bits of mantissa: between \<open>2^e\<close> and \<open>2^(e+1)\<close>
  its values are the multiples of \<open>2^(e-52)\<close>. The least exponent is \<open>-1022\<close> (below it
  the spacing of the values stays \<open>2^-1074\<close>), and a magnitude that rounds to \<open>2^1024\<close> or
  more is an infinity.
\<close>

definition f64_exponent :: "real \<Rightarrow> int" where
  "f64_exponent a = max (bin_exponent 2200 a) (- 1022)"

definition round_at :: "int \<Rightarrow> real \<Rightarrow> real" where
  "round_at e a = of_int (np_round (a / pow2 (e - 52))) * pow2 (e - 52)"

definition f64_of_magnitude :: "bool \<Rightarrow> real \<Rightarrow> f64" where
  "f64_of_magnitude positive r =
     (if 2 ^ 1024 \<le> r then (if positive then PosInf else NegInf)
      else Finite (if positive then r else - r))"

definition round_to_f64 :: "real \<Rightarrow> f64" where
  "round_to_f64 x =
     (if x = 0 then Finite 0
      else f64_of_magnitude (0 < x) (round_at (f64_exponent \<bar>x\<bar>) \<bar>x\<bar>))"

fun f64_div :: "f64 \<Rightarrow> f64 \<Rightarrow> f64" where
  "f64_div NaN y = NaN"
| "f64_div x NaN = NaN"
| "f64_div (Finite x) (Finite y) =
     (if y \<noteq> 0 then round_to_f64 (x / y)
      else if 0 < x then PosInf else if x < 0 then NegInf else NaN)"
| "f64_div (Finite x) y = Finite 0"
| "f64_div PosInf (Finite y) = (if 0 \<le> y then PosInf else NegInf)"
| "f64_div NegInf (Finite y) = (if 0 \<le> y then NegInf else PosInf)"
| "f64_div x y = NaN"

fun f64_mul :: "f64 \<Rightarrow> f64 \<Rightarrow> f64" where
  "f64_mul NaN y = NaN"
| "f64_mul x NaN = NaN"
| "f64_mul (Finite x) (Finite y) = round_to_f64 (x * y)"
| "f64_mul (Finite x) PosInf = (if 0 < x then PosInf else if x < 0 then NegInf else NaN)"
| "f64_mul (Finite x) NegInf = (if 0 < x then NegInf else if x < 0 then PosInf else NaN)"
| "f64_mul PosInf (Finite y) = (if 0 < y then PosInf else if y < 0 then NegInf else NaN)"
| "f64_mul NegInf (Finite y) = (if 0 < y then NegInf else if y < 0 then PosInf else NaN)"
| "f64_mul PosInf PosInf = PosInf"
| "f64_mul NegInf NegInf = PosInf"
| "f64_mul PosInf NegInf = NegInf"
| "f64_mul NegInf PosInf = NegInf"

text \<open>\<^verbatim>\<open>np.round\<close> of a float64 is a float64.\<close>

fun f64_rint :: "f64 \<Rightarrow> f64" where
  "f64_rint (Finite x) = Finite (of_int (np_round x))"
| "f64_rint x = x"

text \<open>
  \<^verbatim>\<open>.astype(int)\<close>: the cast to int64 drops the fraction; a value outside the range of
  int64, an infinity and a NaN give \<open>-2^63\<close> (the conversion of the x86-64 processors).
\<close>

fun f64_to_int64 :: "f64 \<Rightarrow> int" where
  "f64_to_int64 (Finite x) =
     (if - (2 ^ 63) \<le> x \<and> x < 2 ^ 63 then (if 0 \<le> x then \<lfloor>x\<rfloor> else \<lceil>x\<rceil>)
      else - (2 ^ 63))"
| "f64_to_int64 x = - (2 ^ 63)"

text \<open>
  \<^verbatim>\<open>np.array(config["spacing"])\<close> in an arithmetic with a float64 array: a list of
  numbers is a vector, a single number a zero-dimensional array, which broadcasts as a
  vector of length one does.
\<close>

definition as_f64s :: "json \<Rightarrow> py_error + f64 list" where
  "as_f64s v =
     (case v of
        JList xs \<Rightarrow> py_bind (sequence_err (map as_number xs)) (\<lambda>ns. Inr (map round_to_f64 ns))
      | _ \<Rightarrow> py_bind (as_number v) (\<lambda>n. Inr [round_to_f64 n]))"

subsection \<open>The target shape and the call of the resampling function\<close>

text \<open>Elementwise arithmetic of two vectors, with numpy's broadcasting of a length 1.\<close>

definition broadcast2 :: "('a \<Rightarrow> 'b \<Rightarrow> 'c) \<Rightarrow> 'a list \<Rightarrow> 'b list \<Rightarrow> py_error + 'c list" where
  "broadcast2 f xs ys =
     (if length xs = length ys then Inr (map2 f xs ys)
      else if length xs = 1 then Inr (map (f (hd xs)) ys)
      else if length ys = 1 then Inr (map (\<lambda>x. f x (hd ys)) xs)
      else Inl (ValueError [Lit ''operands could not be broadcast together'']))"

text \<open>
  \<^verbatim>\<open>scale_factors = current_spacing / target_spacing\<close> and
  \<^verbatim>\<open>np.round(np.array(current.shape) * scale_factors).astype(int)\<close>: the shape is an
  int64 array, converted to float64 for the product.
\<close>

definition compute_target_shape ::
  "nat list \<Rightarrow> f64 list \<Rightarrow> f64 list \<Rightarrow> py_error + int list" where
  "compute_target_shape current_shape current_spacing target_spacing =
     py_bind (broadcast2 f64_div current_spacing target_spacing) (\<lambda>scale_factors.
     py_bind (broadcast2 f64_mul (map (\<lambda>n. round_to_f64 (real n)) current_shape) scale_factors)
       (\<lambda>scaled.
       Inr (map (\<lambda>x. f64_to_int64 (f64_rint x)) scaled)))"

text \<open>
  \<^verbatim>\<open>resample_data_or_seg_to_shape\<close> is imported from the nnunetv2 package; it is a
  parameter of the stage. It receives the volume under a channel axis of length one, the
  target shape, both spacings and the keyword arguments.
\<close>

type_synonym resampler =
  "ndarray list \<Rightarrow> int list \<Rightarrow> f64 list \<Rightarrow> f64 list \<Rightarrow> json \<Rightarrow> py_error + ndarray list"

definition first_channel :: "ndarray list \<Rightarrow> py_error + ndarray" where
  "first_channel chs = (case chs of [] \<Rightarrow> Inl IndexError | c # _ \<Rightarrow> Inr c)"

definition resample_to ::
  "resampler \<Rightarrow> json \<Rightarrow> ndarray \<Rightarrow> f64 list \<Rightarrow> f64 list \<Rightarrow> py_error + ndarray" where
  "resample_to resample_data_or_seg_to_shape resample_kwargs current current_spacing
       target_spacing =
     py_bind (compute_target_shape (shape current) current_spacing target_spacing)
       (\<lambda>target_shape.
     py_bind (resample_data_or_seg_to_shape [current] target_shape current_spacing
                target_spacing resample_kwargs) first_channel)"

definition resampling_stage ::
  "resampler \<Rightarrow> json \<Rightarrow> ndarray \<Rightarrow> f64 list \<Rightarrow> py_error + ndarray" where
  "resampling_stage resample_data_or_seg_to_shape config current current_spacing =
     py_bind (subscript config ''spacing'') (\<lambda>spacing.
     py_bind (as_f64s spacing) (\<lambda>target_spacing.
     py_bind (py_get config ''resampling_fn_data_kwargs'' default_data_kwargs)
       (\<lambda>resample_kwargs.
       resample_to resample_data_or_seg_to_shape resample_kwargs current current_spacing
         target_spacing)))"

section \<open>Example documents and volumes\<close>

definition example_config :: json where
  "example_config =
     JDict [(''spacing'', JList [JFloat 1, JFloat (1 / 2), JFloat (1 / 2)]),
            (''patch_size'', JList [JInt 32, JInt 64, JInt 64]),
            (''normalization_schemes'', JList [JStr ''CTNormalization''])]"

definition example_configurations :: "(string \<times> json) list" where
  "example_configurations =
     [(''2d'',
         JDict [(''spacing'', JList [JFloat (1 / 2), JFloat (1 / 2)]),
                (''patch_size'', JList [JInt 64, JInt 64]),
                (''normalization_schemes'', JList [JStr ''ZScoreNormalization''])]),
      (''3d_fullres'', example_config)]"

definition example_plans :: json where
  "example_plans = JDict [(''configurations'', JDict example_configurations)]"

definition example_stats :: "(string \<times> json) list" where
  "example_stats =
     [(''mean'', JFloat (201 / 2)), (''std'', JFloat (251 / 5)),
      (''percentile_00_5'', JFloat (- 1024)), (''percentile_99_5'', JFloat 1500)]"

definition example_fingerprint :: json where
  "example_fingerprint =
     JDict [(''foreground_intensity_properties_per_channel'',
               JDict [(''0'', JDict example_stats)]),
            (''spacing'', JList [JFloat (5 / 2), JFloat (7 / 10), JFloat (7 / 10)]),
            (''shapes_after_crop'',
               JList [JList [JInt 32, JInt 64, JInt 64], JList [JInt 10, JInt 20, JInt 30],
                      JList [JInt 12, JInt 22, JInt 28]])]"

text \<open>A fingerprint whose channel statistics lack the standard deviation.\<close>

definition partial_fingerprint :: json where
  "partial_fingerprint =
     JDict [(''foreground_intensity_properties_per_channel'',
               JDict [(''0'', JDict [(''mean'', JFloat (201 / 2)),
                                     (''percentile_00_5'', JFloat (- 1024)),
                                     (''percentile_99_5'', JFloat 1500)])])]"

definition example_params :: "(string \<times> json) list" where
  "example_params =
     [(''configuration_name'', JStr ''3d_fullres''),
      (''target_spacing'', JList [JFloat 1, JFloat (1 / 2), JFloat (1 / 2)]),
      (''patch_size'', JList [JInt 32, JInt 64, JInt 64]),
      (''transpose_forward'', JList [JInt 0, JInt 1, JInt 2]),
      (''transpose_backward'', JList [JInt 0, JInt 1, JInt 2]),
      (''normalization_schemes'', JList [JStr ''CTNormalization'']),
      (''use_mask_for_norm'', JList [JBool False]),
      (''foreground_intensity_properties'', JDict [(''0'', JDict example_stats)]),
      (''resampling_fn_data'', JStr ''resample_data_or_seg_to_shape''),
      (''resampling_fn_data_kwargs'', default_data_kwargs),
      (''resampling_fn_seg'', JStr ''resample_data_or_seg_to_shape''),
      (''resampling_fn_seg_kwargs'', default_seg_kwargs),
      (''anisotropy_threshold'', JFloat 3),
      (''original_spacing'', JList [JFloat (5 / 2), JFloat (7 / 10), JFloat (7 / 10)]),
      (''original_median_shape'', JList [JInt 32, JInt 64, JInt 64])]"

definition example_volume :: ndarray where
  "example_volume =
     \<lparr>shape = [2, 2, 3],
      data = [[[0, 0, 0], [0, 5, 0]], [[0, 0, 0], [0, - 2000, 2]]]\<rparr>"

definition zero_volume :: ndarray where
  "zero_volume = \<lparr>shape = [1, 2, 2], data = [[[0, 0], [0, 0]]]\<rparr>"

text \<open>A configuration whose only scheme identifier is not a supported one.\<close>

definition unsupported_config :: json where
  "unsupported_config =
     JDict [(''spacing'', JList [JFloat 1, JFloat 1, JFloat 1]),
            (''patch_size'', JList [JInt 32, JInt 64, JInt 64]),
            (''normalization_schemes'', JList [JStr ''HistogramNormalization''])]"

text \<open>Channel statistics with standard deviation zero.\<close>

definition flat_fingerprint :: json where
  "flat_fingerprint =
     JDict [(''foreground_intensity_properties_per_channel'',
               JDict [(''0'', JDict [(''mean'', JInt 0), (''std'', JInt 0),
                                     (''percentile_00_5'', JInt (- 1)),
                                     (''percentile_99_5'', JInt 1)])])]"

text \<open>
  A stand-in for the imported resampling function that accepts every target shape and
  returns, for each channel, a volume of zeros of that shape.
\<close>

definition zero_fill_resampler :: resampler where
  "zero_fill_resampler chs target_shape current_spacing target_spacing kwargs =
     Inr (map (\<lambda>c. tabulate3 (map nat target_shape) (\<lambda>i j k. 0)) chs)"

text \<open>The distance of a number to the nearest half-integer \<open>k + 1/2\<close>.\<close>

definition tie_distance :: "real \<Rightarrow> real" where
  "tie_distance v = \<bar>v - (of_int \<lfloor>v\<rfloor> + 1 / 2)\<bar>"


text \<open>The six permutations of the axes, each with its inverse.\<close>

definition axis_permutations :: "(int list \<times> int list) list" where
  "axis_permutations =
     [([0, 1, 2], [0, 1, 2]), ([0, 2, 1], [0, 2, 1]), ([1, 0, 2], [1, 0, 2]),
      ([1, 2, 0], [2, 0, 1]), ([2, 0, 1], [1, 2, 0]), ([2, 1, 0], [2, 1, 0])]"

text \<open>
  The volume has a nonzero sample whose index along the given axis is \<open>c\<close>; and it has
  no nonzero sample at all.
\<close>

definition nonzero_on :: "ndarray \<Rightarrow> nat \<Rightarrow> nat \<Rightarrow> bool" where
  "nonzero_on a axis c =
     (\<exists>i < shape a ! 0. \<exists>j < shape a ! 1. \<exists>k < shape a ! 2.
        at3 a i j k \<noteq> 0 \<and> [i, j, k] ! axis = c)"

definition all_zero :: "ndarray \<Rightarrow> bool" where
  "all_zero a =
     (\<forall>i < shape a ! 0. \<forall>j < shape a ! 1. \<forall>k < shape a ! 2. at3 a i j k = 0)"

section \<open>Properties of the Configuration Resolver\<close>

lemma py_bind_Inr [simp]: "py_bind (Inr v) f = f v"
  by (simp add: py_bind_def)

lemma py_bind_Inl [simp]: "py_bind (Inl e) f = Inl e"
  by (simp add: py_bind_def)

lemma py_bind_eq_Inr: "py_bind m f = Inr r \<longleftrightarrow> (\<exists>v. m = Inr v \<and> f v = Inr r)"
  by (cases m) simp_all

lemma build_params_shape:
  assumes "build_params plans config fingerprint configuration = Inr params"
  shows "\<exists>a b c d e f g h i j k l m.
           original_median_shape fingerprint = Inr m \<and>
           subscript config ''normalization_schemes'' = Inr e \<and>
           py_get fingerprint ''foreground_intensity_properties_per_channel'' (JDict []) = Inr g \<and>
           params =
           [(''configuration_name'', JStr configuration), (''target_spacing'', a),
            (''patch_size'', b), (''transpose_forward'', c), (''transpose_backward'', d),
            (''normalization_schemes'', e), (''use_mask_for_norm'', f),
            (''foreground_intensity_properties'', g), (''resampling_fn_data'', h),
            (''resampling_fn_data_kwargs'', i), (''resampling_fn_seg'', j),
            (''resampling_fn_seg_kwargs'', k), (''anisotropy_threshold'', JFloat 3),
            (''original_spacing'', l), (''original_median_shape'', m)]"
  using assms unfolding build_params_def py_bind_eq_Inr by blast

lemma extract_Inr:
  assumes "extract_preprocessing_params plans fingerprint configuration = Inr params"
  shows "\<exists>config. lookup_configuration plans configuration = Inr config \<and>
           build_params plans config fingerprint configuration = Inr params \<and>
           validate_ct config params = Inr ()"
  using assms unfolding extract_preprocessing_params_def py_bind_eq_Inr by auto

lemma lookup_configuration_dict:
  assumes "subscript plans ''configurations'' = Inr (JDict confs)"
  shows "lookup_configuration plans configuration =
           (if configuration \<in> set (map fst confs)
            then subscript (JDict confs) configuration
            else Inl (configuration_not_found configuration (map fst confs)))"
  using assms by (simp add: lookup_configuration_def py_in_def py_keys_def)

lemma py_bind_neq:
  assumes "m \<noteq> Inl e" and "\<And>v. f v \<noteq> Inl e"
  shows "py_bind m f \<noteq> Inl e"
  using assms by (cases m) auto

lemma if_neq: "(c \<Longrightarrow> a \<noteq> e) \<Longrightarrow> (\<not> c \<Longrightarrow> b \<noteq> e) \<Longrightarrow> (if c then a else b) \<noteq> e"
  by simp

lemma subscript_not_found: "subscript d k \<noteq> Inl (configuration_not_found c av)"
  by (auto simp: subscript_def configuration_not_found_def split: json.splits option.splits)

lemma py_get_not_found: "py_get d k x \<noteq> Inl (configuration_not_found c av)"
  by (auto simp: py_get_def configuration_not_found_def split: json.splits option.splits)

lemma py_in_not_found: "py_in k d \<noteq> Inl (configuration_not_found c av)"
  by (auto simp: py_in_def configuration_not_found_def split: json.splits)

lemma py_keys_not_found: "py_keys d \<noteq> Inl (configuration_not_found c av)"
  by (auto simp: py_keys_def configuration_not_found_def split: json.splits)

lemma index0_not_found: "index0 v \<noteq> Inl (configuration_not_found c av)"
  by (cases v rule: index0.cases) (auto simp: configuration_not_found_def)

lemma missing_keys_not_found: "missing_keys ks d \<noteq> Inl (configuration_not_found c av)"
proof (induction ks)
  case Nil
  show ?case by simp
next
  case (Cons k ks)
  show ?case unfolding missing_keys.simps
    by (intro py_bind_neq py_in_not_found Cons.IH) simp
qed

lemma missing_ct_not_found:
  "Inl (missing_ct_parameters ms ks) \<noteq> (Inl (configuration_not_found c av) :: py_error + 'a)"
  by (simp add: missing_ct_parameters_def configuration_not_found_def)

lemmas not_found_intros =
  py_bind_neq if_neq subscript_not_found py_get_not_found py_in_not_found py_keys_not_found
  index0_not_found missing_keys_not_found missing_ct_not_found

lemma validate_ct_not_found:
  "validate_ct config params \<noteq> Inl (configuration_not_found c av)"
  unfolding validate_ct_def by (intro not_found_intros) simp_all

lemma median_not_found: "original_median_shape fp \<noteq> Inl (configuration_not_found c av)"
  unfolding original_median_shape_def by (intro not_found_intros) simp_all

lemma build_params_not_found:
  "build_params plans config fp cn \<noteq> Inl (configuration_not_found c av)"
  unfolding build_params_def by (intro not_found_intros median_not_found) simp_all

text \<open>
  Claim C4, as the code has it. For a plan document whose \<open>configurations\<close> entry is a
  dictionary, the resolver fails with the error that names the requested configuration and
  lists every configuration name of the plan, in the plan's order, exactly when the name
  is not a key of that dictionary; and whenever it returns a record, the name is a key and
  the record holds all fifteen fields. For a name that is a key the resolver can also fail
  with another error (see the counterexample below), so the two outcomes of the claim are
  not the only ones.
\<close>

theorem resolver_not_found_iff_absent:
  assumes "subscript plans ''configurations'' = Inr (JDict confs)"
  shows "(extract_preprocessing_params plans fingerprint configuration =
            Inl (configuration_not_found configuration (map fst confs))
          \<longleftrightarrow> configuration \<notin> set (map fst confs)) \<and>
         (\<forall>params. extract_preprocessing_params plans fingerprint configuration = Inr params
            \<longrightarrow> configuration \<in> set (map fst confs) \<and> map fst params = param_fields)"
proof (intro conjI allI impI)
  show "(extract_preprocessing_params plans fingerprint configuration =
            Inl (configuration_not_found configuration (map fst confs)))
        = (configuration \<notin> set (map fst confs))"
  proof (cases "configuration \<in> set (map fst confs)")
    case False
    then show ?thesis
      by (simp add: extract_preprocessing_params_def lookup_configuration_dict [OF assms])
  next
    case True
    have "extract_preprocessing_params plans fingerprint configuration \<noteq>
            Inl (configuration_not_found configuration (map fst confs))"
      unfolding extract_preprocessing_params_def lookup_configuration_dict [OF assms]
      using True
      by (intro not_found_intros build_params_not_found validate_ct_not_found) simp_all
    with True show ?thesis by simp
  qed
next
  fix params
  assume r: "extract_preprocessing_params plans fingerprint configuration = Inr params"
  from extract_Inr [OF r] obtain config where
    l: "lookup_configuration plans configuration = Inr config" and
    b: "build_params plans config fingerprint configuration = Inr params" by blast
  from l show "configuration \<in> set (map fst confs)"
    unfolding lookup_configuration_dict [OF assms] by (auto split: if_splits)
  from build_params_shape [OF b] show "map fst params = param_fields"
    by (auto simp: param_fields_def)
qed

lemmas example_defs =
  example_plans_def example_configurations_def example_config_def example_fingerprint_def
  example_stats_def partial_fingerprint_def

lemmas resolver_defs =
  extract_preprocessing_params_def lookup_configuration_def subscript_def py_in_def
  build_params_def py_get_def py_keys_def original_median_shape_def validate_ct_def
  required_keys_def identity_axes_def

lemma example_resolves:
  "extract_preprocessing_params example_plans example_fingerprint ''3d_fullres'' = Inr example_params"
  by (simp add: resolver_defs example_defs example_params_def)

lemma example_configurations_entry:
  "subscript example_plans ''configurations'' = Inr (JDict example_configurations)"
  by (simp add: subscript_def example_plans_def)

theorem resolver_not_found_iff_absent_witness:
  "extract_preprocessing_params example_plans example_fingerprint ''3d_lowres'' =
     Inl (configuration_not_found ''3d_lowres'' [''2d'', ''3d_fullres'']) \<and>
   ''3d_fullres'' \<in> set (map fst example_configurations) \<and>
   map fst example_params = param_fields"
proof -
  note t = resolver_not_found_iff_absent [OF example_configurations_entry, of example_fingerprint]
  have k: "map fst example_configurations = [''2d'', ''3d_fullres'']"
    by (simp add: example_configurations_def)
  have "''3d_lowres'' \<notin> set (map fst example_configurations)"
    by (simp add: k)
  with t [of "''3d_lowres''"] have
    "extract_preprocessing_params example_plans example_fingerprint ''3d_lowres'' =
       Inl (configuration_not_found ''3d_lowres'' (map fst example_configurations))"
    by blast
  moreover from t [of "''3d_fullres''"] example_resolves have
    "''3d_fullres'' \<in> set (map fst example_configurations) \<and>
     map fst example_params = param_fields"
    by blast
  ultimately show ?thesis by (simp add: k)
qed

text \<open>
  Claim C4 as stated fails: for a name that is a key of the plan, with the CT scheme and an
  empty fingerprint, the resolver returns no record and its error names neither the
  configuration nor the plan's configuration names.
\<close>

theorem resolver_other_failure_counterexample:
  "extract_preprocessing_params example_plans (JDict []) ''3d_fullres'' =
     Inl (missing_ct_parameters [''mean'', ''std'', ''percentile_00_5'', ''percentile_99_5''] [])"
  by (simp add: resolver_defs example_defs)

lemma missing_keys_dict:
  "missing_keys ks (JDict d) = Inr (filter (\<lambda>k. k \<notin> set (map fst d)) ks)"
  by (induction ks) (simp_all add: py_in_def)

text \<open>
  Claim C5. When the configuration resolves, its scheme list contains the CT-style scheme
  and the statistics of channel \<open>"0"\<close> are a dictionary (an absent channel counts as an
  empty one), the resolver fails with the error naming exactly the required fields that
  are missing, in the order mean, std, percentile_00_5, percentile_99_5, if there is one;
  if all four are present the validation passes and the record is returned.
\<close>

theorem ct_statistics_validation:
  assumes "lookup_configuration plans configuration = Inr config"
    and "build_params plans config fingerprint configuration = Inr params"
    and "subscript config ''normalization_schemes'' = Inr (JList schemes)"
    and "JStr ''CTNormalization'' \<in> set schemes"
    and "py_get fingerprint ''foreground_intensity_properties_per_channel'' (JDict []) =
           Inr per_channel"
    and "py_get per_channel ''0'' (JDict []) = Inr (JDict channel_props)"
  shows "extract_preprocessing_params plans fingerprint configuration =
           (if filter (\<lambda>k. k \<notin> set (map fst channel_props)) required_keys = [] then Inr params
            else Inl (missing_ct_parameters
                        (filter (\<lambda>k. k \<notin> set (map fst channel_props)) required_keys)
                        (map fst channel_props)))"
proof -
  from build_params_shape [OF assms(2)] assms(5)
  have p: "subscript (JDict params) ''foreground_intensity_properties'' = Inr per_channel"
    by (auto simp: subscript_def)
  have "validate_ct config params =
          (if filter (\<lambda>k. k \<notin> set (map fst channel_props)) required_keys = [] then Inr ()
           else Inl (missing_ct_parameters
                       (filter (\<lambda>k. k \<notin> set (map fst channel_props)) required_keys)
                       (map fst channel_props)))"
    unfolding validate_ct_def using assms(3,4,6) p
    by (simp add: py_in_def missing_keys_dict py_keys_def)
  then show ?thesis
    unfolding extract_preprocessing_params_def using assms(1,2) by simp
qed

theorem ct_statistics_validation_witness:
  "extract_preprocessing_params example_plans partial_fingerprint ''3d_fullres'' =
     Inl (missing_ct_parameters [''std''] [''mean'', ''percentile_00_5'', ''percentile_99_5'']) \<and>
   extract_preprocessing_params example_plans example_fingerprint ''3d_fullres'' =
     Inr example_params"
proof -
  have l: "lookup_configuration example_plans ''3d_fullres'' = Inr example_config"
    by (simp add: lookup_configuration_def subscript_def py_in_def example_plans_def
        example_configurations_def)
  have s: "subscript example_config ''normalization_schemes'' = Inr (JList [JStr ''CTNormalization''])"
    by (simp add: subscript_def example_config_def)
  have c: "JStr ''CTNormalization'' \<in> set [JStr ''CTNormalization'']" by simp
  have b1: "build_params example_plans example_config example_fingerprint ''3d_fullres'' =
              Inr example_params"
    by (simp add: resolver_defs example_defs example_params_def)
  have f1: "py_get example_fingerprint ''foreground_intensity_properties_per_channel'' (JDict []) =
              Inr (JDict [(''0'', JDict example_stats)])"
    by (simp add: py_get_def example_fingerprint_def)
  have g1: "py_get (JDict [(''0'', JDict example_stats)]) ''0'' (JDict []) = Inr (JDict example_stats)"
    by (simp add: py_get_def)
  have "\<exists>p. build_params example_plans example_config partial_fingerprint ''3d_fullres'' = Inr p"
    by (simp add: resolver_defs example_defs)
  then obtain p where
    b2: "build_params example_plans example_config partial_fingerprint ''3d_fullres'' = Inr p" ..
  have f2: "py_get partial_fingerprint ''foreground_intensity_properties_per_channel'' (JDict []) =
              Inr (JDict [(''0'', JDict [(''mean'', JFloat (201 / 2)),
                                     (''percentile_00_5'', JFloat (- 1024)),
                                     (''percentile_99_5'', JFloat 1500)])])"
    by (simp add: py_get_def partial_fingerprint_def)
  have g2: "py_get (JDict [(''0'', JDict [(''mean'', JFloat (201 / 2)),
                                     (''percentile_00_5'', JFloat (- 1024)),
                                     (''percentile_99_5'', JFloat 1500)])]) ''0'' (JDict []) =
      Inr (JDict [(''mean'', JFloat (201 / 2)),
                                     (''percentile_00_5'', JFloat (- 1024)),
                                     (''percentile_99_5'', JFloat 1500)])"
    by (simp add: py_get_def)
  from ct_statistics_validation [OF l b1 s c f1 g1] ct_statistics_validation [OF l b2 s c f2 g2]
  show ?thesis by (simp add: required_keys_def example_stats_def)
qed

lemma median_shape_of_list:
  assumes "py_get fingerprint ''shapes_after_crop'' (JList []) = Inr (JList shapes)"
  shows "original_median_shape fingerprint =
           Inr (case shapes of [] \<Rightarrow> JList [] | first # rest \<Rightarrow> first)"
  using assms unfolding original_median_shape_def py_get_def
  by (auto split: json.splits option.splits list.splits)

text \<open>
  Claim C9. In every record the resolver returns, \<open>original_median_shape\<close> is the first
  element of the fingerprint's \<open>shapes_after_crop\<close> list when the list is present and not
  empty, and the empty list otherwise: no median is computed.
\<close>

theorem median_shape_is_first_recorded_shape:
  assumes "extract_preprocessing_params plans fingerprint configuration = Inr params"
    and "py_get fingerprint ''shapes_after_crop'' (JList []) = Inr (JList shapes)"
  shows "map_of params ''original_median_shape'' =
           Some (case shapes of [] \<Rightarrow> JList [] | first # rest \<Rightarrow> first)"
proof -
  from extract_Inr [OF assms(1)] obtain config where
    "build_params plans config fingerprint configuration = Inr params" by blast
  from build_params_shape [OF this] median_shape_of_list [OF assms(2)]
  show ?thesis by auto
qed

theorem median_shape_is_first_recorded_shape_witness:
  "\<exists>params. extract_preprocessing_params example_plans example_fingerprint ''3d_fullres'' = Inr params \<and>
     map_of params ''original_median_shape'' = Some (JList [JInt 32, JInt 64, JInt 64]) \<and>
     map_of params ''original_median_shape'' \<noteq> Some (JList [JInt 12, JInt 22, JInt 30])"
proof -
  have g: "py_get example_fingerprint ''shapes_after_crop'' (JList []) =
             Inr (JList [JList [JInt 32, JInt 64, JInt 64], JList [JInt 10, JInt 20, JInt 30],
                         JList [JInt 12, JInt 22, JInt 28]])"
    by (simp add: py_get_def example_fingerprint_def)
  from median_shape_is_first_recorded_shape [OF example_resolves g]
  have "map_of example_params ''original_median_shape'' = Some (JList [JInt 32, JInt 64, JInt 64])"
    by simp
  with example_resolves show ?thesis by simp
qed

text \<open>
  Claim C10. In every record the resolver returns, for any plan document, fingerprint
  document and configuration name, \<open>anisotropy_threshold\<close> is 3.0.
\<close>

theorem anisotropy_threshold_is_constant:
  assumes "extract_preprocessing_params plans fingerprint configuration = Inr params"
  shows "map_of params ''anisotropy_threshold'' = Some (JFloat 3)"
proof -
  from extract_Inr [OF assms] obtain config where
    "build_params plans config fingerprint configuration = Inr params" by blast
  from build_params_shape [OF this] show ?thesis by auto
qed

theorem anisotropy_threshold_is_constant_witness:
  "\<exists>params. extract_preprocessing_params example_plans example_fingerprint ''3d_fullres'' = Inr params \<and>
     map_of params ''anisotropy_threshold'' = Some (JFloat 3)"
  using anisotropy_threshold_is_constant [OF example_resolves] example_resolves by blast

section \<open>Properties of the normalization stage\<close>

lemma well_formed_lengths:
  assumes "well_formed a"
  shows "length (shape a) = 3" and "length (data a) = shape a ! 0"
    and "i < shape a ! 0 \<Longrightarrow> length (data a ! i) = shape a ! 1"
    and "i < shape a ! 0 \<Longrightarrow> j < shape a ! 1 \<Longrightarrow> length (data a ! i ! j) = shape a ! 2"
  using assms by (auto simp: well_formed_def list_all_length)


lemma shape_array_map [simp]: "shape (array_map f a) = shape a"
  by (simp add: array_map_def)








lemma np_clip_inclusive:
  "lower \<le> upper \<Longrightarrow>
     np_clip x lower upper = (if x < lower then lower else if upper < x then upper else x)"
  by (auto simp: np_clip_def)



lemma example_volume_well_formed: "well_formed example_volume"
  by (simp add: well_formed_def example_volume_def)


text \<open>
  Claim C6 as stated fails: with a scheme identifier that is none of the supported ones,
  the normalization stage returns the array as it is and raises nothing.
\<close>

theorem unsupported_scheme_counterexample:
  "normalization_stage unsupported_config example_fingerprint example_volume = Inr example_volume"
  by (simp add: normalization_stage_def unsupported_config_def subscript_def py_in_def)

text \<open>
  Claim C6, as the code has it. The stage knows the CT-style scheme only: for every scheme
  list that does not contain it, whatever identifiers it holds, the normalization stage of
  both fixture generators returns the array unchanged and does not fail.
\<close>

theorem unlisted_scheme_leaves_array_unchanged:
  assumes "subscript config ''normalization_schemes'' = Inr (JList schemes)"
    and "py_get params ''normalization_schemes'' (JList []) = Inr (JList schemes)"
    and "JStr ''CTNormalization'' \<notin> set schemes"
  shows "normalization_stage config fingerprint current = Inr current \<and>
         normalization_stage_synthetic params current = Inr current"
  using assms by (simp add: normalization_stage_def normalization_stage_synthetic_def py_in_def)

theorem unlisted_scheme_leaves_array_unchanged_witness:
  "normalization_stage unsupported_config flat_fingerprint zero_volume = Inr zero_volume \<and>
   normalization_stage_synthetic unsupported_config zero_volume = Inr zero_volume"
proof -
  have 1: "subscript unsupported_config ''normalization_schemes'' =
             Inr (JList [JStr ''HistogramNormalization''])"
    by (simp add: subscript_def unsupported_config_def)
  have 2: "py_get unsupported_config ''normalization_schemes'' (JList []) =
             Inr (JList [JStr ''HistogramNormalization''])"
    by (simp add: py_get_def unsupported_config_def)
  have 3: "JStr ''CTNormalization'' \<notin> set [JStr ''HistogramNormalization'']" by simp
  from unlisted_scheme_leaves_array_unchanged [OF 1 2 3] show ?thesis .
qed

section \<open>Properties of the resampling stage\<close>

lemma bin_exponent_numeral:
  "bin_exponent (numeral k) a =
     (if 2 \<le> a then bin_exponent (pred_numeral k) (a / 2) + 1
      else if a < 1 then bin_exponent (pred_numeral k) (2 * a) - 1
      else 0)"
  by (simp add: numeral_eq_Suc)

lemmas f64_eval =
  round_to_f64_def f64_exponent_def round_at_def f64_of_magnitude_def bin_exponent_numeral
  pow2_def np_round_def Let_def

lemma pow2_powi: "pow2 e = power_int 2 e"
  by (simp add: pow2_def power_int_def power_divide inverse_eq_divide)

lemma pow2_pos: "0 < pow2 e"
  by (simp add: pow2_powi)

lemma pow2_nonzero [simp]: "pow2 e \<noteq> 0"
  using pow2_pos [of e] by simp

lemma pow2_add: "pow2 (a + b) = pow2 a * pow2 b"
  by (simp add: pow2_powi power_int_add)

lemma pow2_mono: "a \<le> b \<Longrightarrow> pow2 a \<le> pow2 b"
  by (simp add: pow2_powi power_int_increasing)

lemma pow2_strict_mono: "a < b \<Longrightarrow> pow2 a < pow2 b"
  by (simp add: pow2_powi power_int_strict_increasing)

lemma pow2_nat: "pow2 (int n) = 2 ^ n"
  by (simp add: pow2_def)

lemma pow2_Suc: "pow2 (e + 1) = 2 * pow2 e"
  by (simp add: pow2_powi power_int_add)

lemma pow2_pred: "pow2 (e - 1) = pow2 e / 2"
  using pow2_Suc [of "e - 1"] by simp

lemma bin_exponent_bounds:
  assumes "pow2 (- int n) \<le> a" and "a < pow2 (int n + 1)"
  shows "pow2 (bin_exponent n a) \<le> a \<and> a < pow2 (bin_exponent n a + 1)"
  using assms
proof (induction n arbitrary: a)
  case 0
  then show ?case by (simp add: pow2_def)
next
  case (Suc n)
  have up: "pow2 (int (Suc n) + 1) = 2 * pow2 (int n + 1)"
    using pow2_Suc [of "int n + 1"] by (simp add: add.commute)
  have down: "pow2 (- int n) = 2 * pow2 (- int (Suc n))"
    using pow2_Suc [of "- int (Suc n)"] by simp
  show ?case
  proof (cases "2 \<le> a")
    case True
    have "pow2 (- int n) \<le> a / 2"
    proof -
      have "pow2 (- int n) \<le> pow2 0" by (rule pow2_mono) simp
      also have "\<dots> = 1" by (simp add: pow2_def)
      also have "\<dots> \<le> a / 2" using True by simp
      finally show ?thesis .
    qed
    moreover have "a / 2 < pow2 (int n + 1)"
      using Suc.prems(2) up by simp
    ultimately have "pow2 (bin_exponent n (a / 2)) \<le> a / 2 \<and>
                     a / 2 < pow2 (bin_exponent n (a / 2) + 1)"
      by (rule Suc.IH)
    then show ?thesis
      using True pow2_Suc [of "bin_exponent n (a / 2)"] pow2_Suc [of "bin_exponent n (a / 2) + 1"]
      by (simp add: add.commute)
  next
    case False
    show ?thesis
    proof (cases "a < 1")
      case True
      have "pow2 (- int n) \<le> 2 * a"
        using Suc.prems(1) down by simp
      moreover have "2 * a < pow2 (int n + 1)"
      proof -
        have "2 * a < 2" using True by simp
        also have "\<dots> = pow2 1" by (simp add: pow2_def)
        also have "\<dots> \<le> pow2 (int n + 1)" by (rule pow2_mono) simp
        finally show ?thesis .
      qed
      ultimately have "pow2 (bin_exponent n (2 * a)) \<le> 2 * a \<and>
                       2 * a < pow2 (bin_exponent n (2 * a) + 1)"
        by (rule Suc.IH)
      then show ?thesis
        using True False pow2_pred [of "bin_exponent n (2 * a)"]
          pow2_Suc [of "bin_exponent n (2 * a)"]
        by simp
    next
      case False
      with \<open>\<not> 2 \<le> a\<close> show ?thesis by (simp add: pow2_def)
    qed
  qed
qed


lemma np_round_near: "\<bar>x - of_int (np_round x)\<bar> \<le> 1 / 2"
  unfolding np_round_def Let_def by (auto simp: abs_le_iff)

lemma np_round_integer [simp]: "np_round (of_int n) = n"
  by (simp add: np_round_def)

lemma np_round_ge:
  assumes "of_int k \<le> x"
  shows "k \<le> np_round x"
proof -
  from np_round_near [of x] assms have "real_of_int k < real_of_int (np_round x) + 1"
    by linarith
  then have "k < np_round x + 1" by linarith
  then show ?thesis by simp
qed

lemma np_round_unique:
  assumes "of_int m - 1 / 2 < x" and "x < of_int m + 1 / 2"
  shows "np_round x = m"
proof -
  let ?r = "np_round x"
  from np_round_near [of x] have "\<bar>x - of_int ?r\<bar> \<le> 1 / 2" .
  with assms have "real_of_int ?r < real_of_int m + 1" "real_of_int m < real_of_int ?r + 1"
    by linarith+
  then have "?r < m + 1" "m < ?r + 1" by linarith+
  then show ?thesis by simp
qed

lemma np_round_stable:
  assumes far: "\<And>k :: int. d < \<bar>v - (of_int k + 1 / 2)\<bar>" and near: "\<bar>p - v\<bar> \<le> d"
  shows "np_round p = np_round v"
proof (rule np_round_unique)
  let ?m = "np_round v"
  from np_round_near [of v] have m: "v \<le> of_int ?m + 1 / 2" "of_int ?m - 1 / 2 \<le> v"
    by linarith+
  from far [of ?m] m(1) have a: "d < of_int ?m + 1 / 2 - v" by linarith
  from far [of "?m - 1"] m(2) have b: "d < v - (of_int ?m - 1 / 2)" by simp
  from near have "p \<le> v + d" "v - d \<le> p" by linarith+
  with a b show "of_int ?m - 1 / 2 < p" "p < of_int ?m + 1 / 2" by linarith+
qed

lemma round_at_error: "\<bar>round_at e a - a\<bar> \<le> pow2 (e - 52) / 2"
proof -
  let ?u = "pow2 (e - 52)"
  let ?m = "np_round (a / ?u)"
  have u: "0 < ?u" by (rule pow2_pos)
  have "round_at e a - a = (of_int ?m - a / ?u) * ?u"
    using u by (simp add: round_at_def field_simps)
  then have "\<bar>round_at e a - a\<bar> = \<bar>a / ?u - of_int ?m\<bar> * ?u"
    using u by (simp add: abs_mult abs_minus_commute)
  also have "\<dots> \<le> (1 / 2) * ?u"
    using np_round_near [of "a / ?u"] u by (intro mult_right_mono) simp_all
  finally show ?thesis by simp
qed

lemma pow2_split: "pow2 e = pow2 (e - 52) * 2 ^ 52"
proof -
  have "pow2 e = pow2 ((e - 52) + 52)" by simp
  also have "\<dots> = pow2 (e - 52) * pow2 52" by (rule pow2_add)
  also have "pow2 52 = 2 ^ 52" by (simp add: pow2_def)
  finally show ?thesis .
qed

lemma round_at_lower:
  assumes "pow2 e \<le> a"
  shows "pow2 e \<le> round_at e a"
proof -
  let ?u = "pow2 (e - 52)"
  have u: "0 < ?u" by (rule pow2_pos)
  have "real_of_int (2 ^ 52) = pow2 e / ?u"
    using u pow2_split [of e] by simp
  also have "\<dots> \<le> a / ?u"
    using assms u by (simp add: divide_right_mono)
  finally have "2 ^ 52 \<le> np_round (a / ?u)" by (rule np_round_ge)
  then have "real_of_int (2 ^ 52) \<le> of_int (np_round (a / ?u))" by linarith
  then have "real_of_int (2 ^ 52) * ?u \<le> of_int (np_round (a / ?u)) * ?u"
    using u by (intro mult_right_mono) simp_all
  then show ?thesis
    using pow2_split [of e] by (simp add: round_at_def mult.commute)
qed


lemma bin_exponent_2200:
  assumes "pow2 (- 1022) \<le> a" and "a < pow2 1024"
  shows "pow2 (bin_exponent 2200 a) \<le> a" and "a < pow2 (bin_exponent 2200 a + 1)"
proof -
  have "pow2 (- int 2200) \<le> pow2 (- 1022)" by (rule pow2_mono) simp
  with assms(1) have l: "pow2 (- int 2200) \<le> a" by simp
  have "pow2 1024 \<le> pow2 (int 2200 + 1)" by (rule pow2_mono) simp
  with assms(2) have u: "a < pow2 (int 2200 + 1)" by simp
  from bin_exponent_bounds [OF l u]
  show "pow2 (bin_exponent 2200 a) \<le> a" and "a < pow2 (bin_exponent 2200 a + 1)"
    by simp_all
qed

lemma exponent_lower:
  assumes "pow2 l \<le> a" and "a < pow2 (e + 1)"
  shows "l \<le> e"
proof (rule ccontr)
  assume "\<not> l \<le> e"
  then have "e + 1 \<le> l" by simp
  then have "pow2 (e + 1) \<le> pow2 l" by (rule pow2_mono)
  with assms show False by simp
qed

lemma exponent_upper:
  assumes "pow2 e \<le> a" and "a < pow2 h"
  shows "e < h"
proof (rule ccontr)
  assume "\<not> e < h"
  then have "h \<le> e" by simp
  then have "pow2 h \<le> pow2 e" by (rule pow2_mono)
  with assms show False by simp
qed

lemma round_to_f64_normal:
  assumes lo: "pow2 (- 1022) \<le> x" and hi: "x < pow2 1023"
  shows "\<exists>r. round_to_f64 x = Finite r \<and> \<bar>r - x\<bar> \<le> x / 2 ^ 53 \<and> pow2 (- 1022) \<le> r"
proof -
  let ?e = "bin_exponent 2200 x"
  let ?r = "round_at ?e x"
  from lo pow2_pos [of "- 1022"] have pos: "0 < x" by linarith
  have "pow2 1023 \<le> pow2 1024" by (rule pow2_mono) simp
  with hi have hi': "x < pow2 1024" by simp
  note b = bin_exponent_2200 [OF lo hi']
  from exponent_lower [OF lo b(2)] have e: "- 1022 \<le> ?e" .
  then have fe: "f64_exponent x = ?e" by (simp add: f64_exponent_def)
  have "pow2 (?e - 52) / 2 = pow2 ?e / 2 ^ 53"
    using pow2_split [of ?e] by simp
  also have "\<dots> \<le> x / 2 ^ 53"
    using b(1) by (simp add: divide_right_mono)
  finally have err: "\<bar>?r - x\<bar> \<le> x / 2 ^ 53"
    using round_at_error [of ?e x] by simp
  have low: "pow2 (- 1022) \<le> ?r"
  proof -
    have "pow2 (- 1022) \<le> pow2 ?e" using e by (rule pow2_mono)
    also have "\<dots> \<le> ?r" using b(1) by (rule round_at_lower)
    finally show ?thesis .
  qed
  have "x / 2 ^ 53 \<le> x" using pos by (simp add: field_simps)
  with err have "?r \<le> 2 * x" by linarith
  also have "\<dots> < 2 * pow2 1023" using hi by simp
  also have "\<dots> = pow2 1024" using pow2_Suc [of 1023] by simp
  also have "\<dots> = 2 ^ 1024" using pow2_nat [of 1024] by simp
  finally have fin: "\<not> 2 ^ 1024 \<le> ?r" by simp
  from pos fin have "round_to_f64 x = Finite ?r"
    by (simp add: round_to_f64_def f64_of_magnitude_def fe)
  with err low show ?thesis by blast
qed

lemma round_to_f64_nat:
  assumes "n < 2 ^ 53"
  shows "round_to_f64 (real n) = Finite (real n)"
proof (cases "n = 0")
  case True
  then show ?thesis by (simp add: round_to_f64_def)
next
  case False
  let ?x = "real n"
  let ?e = "bin_exponent 2200 ?x"
  from False have one: "pow2 0 \<le> ?x" by (simp add: pow2_def)
  have "pow2 (- 1022) \<le> pow2 0" by (rule pow2_mono) simp
  with one have lo: "pow2 (- 1022) \<le> ?x" by simp
  from assms have "?x < 2 ^ 53"
    by (metis of_nat_less_iff of_nat_numeral of_nat_power)
  then have h53: "?x < pow2 53" using pow2_nat [of 53] by simp
  have "pow2 53 \<le> pow2 1024" by (rule pow2_mono) simp
  with h53 have hi: "?x < pow2 1024" by simp
  note b = bin_exponent_2200 [OF lo hi]
  from exponent_lower [OF one b(2)] have e0: "0 \<le> ?e" .
  from exponent_upper [OF b(1) h53] have e52: "?e \<le> 52" by simp
  from e0 have fe: "f64_exponent ?x = ?e" by (simp add: f64_exponent_def)
  let ?k = "nat (52 - ?e)"
  have u: "pow2 (?e - 52) = 1 / 2 ^ ?k"
  proof (cases "?e = 52")
    case True
    then show ?thesis by (simp add: pow2_def)
  next
    case False
    with e52 have "\<not> 0 \<le> ?e - 52" by simp
    then show ?thesis by (simp add: pow2_def)
  qed
  have "?x / pow2 (?e - 52) = of_int (int n * 2 ^ ?k)"
    by (simp add: u)
  then have "np_round (?x / pow2 (?e - 52)) = int n * 2 ^ ?k"
    by (simp only: np_round_integer)
  then have r: "round_at ?e ?x = ?x"
    by (simp add: round_at_def u)
  have "?x < 2 ^ 1024"
    using hi pow2_nat [of 1024] by simp
  with False r show ?thesis
    by (simp add: round_to_f64_def f64_of_magnitude_def fe)
qed


lemma abs_chain:
  fixes a b c :: real
  assumes "\<bar>a - b\<bar> \<le> d1" and "\<bar>b - c\<bar> \<le> d2"
  shows "\<bar>a - c\<bar> \<le> d1 + d2"
  using assms by linarith

lemma target_component_exact:
  assumes n: "0 < n" "n < 2 ^ 53" and c: "0 < c" and t: "0 < t"
    and q_lo: "pow2 (- 1022) \<le> c / t"
    and v_hi: "real n * c / t < 2 ^ 62"
    and far: "\<And>k :: int. real n * c / t / 2 ^ 51 < \<bar>real n * c / t - (of_int k + 1 / 2)\<bar>"
  shows "f64_to_int64 (f64_rint (f64_mul (round_to_f64 (real n)) (round_to_f64 (c / t)))) =
           np_round (real n * c / t)"
proof -
  let ?x = "c / t"
  let ?v = "real n * c / t"
  have v: "?v = real n * ?x" by simp
  from c t have x_pos: "0 < ?x" by simp
  from n(1) have n1: "1 \<le> real n" by simp
  have "1 * ?x \<le> real n * ?x"
    using n1 x_pos by (intro mult_right_mono) simp_all
  then have x_le_v: "?x \<le> ?v" by simp
  from x_pos x_le_v have v_pos: "0 < ?v" by linarith
  have p62: "(2::real) ^ 62 = pow2 62" using pow2_nat [of 62] by simp
  have p63: "(2::real) ^ 63 = pow2 63" using pow2_nat [of 63] by simp
  have "pow2 62 \<le> pow2 1023" by (rule pow2_mono) simp
  with x_le_v v_hi p62 have x_hi: "?x < pow2 1023" by linarith
  from round_to_f64_normal [OF q_lo x_hi] obtain q where
    q: "round_to_f64 ?x = Finite q" and qe: "\<bar>q - ?x\<bar> \<le> ?x / 2 ^ 53" and
    ql: "pow2 (- 1022) \<le> q"
    by blast
  from ql pow2_pos [of "- 1022"] have q_pos: "0 < q" by linarith
  let ?y = "real n * q"
  have "1 * q \<le> real n * q"
    using n1 q_pos by (intro mult_right_mono) simp_all
  then have "q \<le> ?y" by simp
  with ql have y_lo: "pow2 (- 1022) \<le> ?y" by linarith
  have yv: "\<bar>?y - ?v\<bar> \<le> ?v / 2 ^ 53"
  proof -
    have "?y - ?v = real n * (q - ?x)"
      by (simp add: right_diff_distrib)
    then have "\<bar>?y - ?v\<bar> = real n * \<bar>q - ?x\<bar>"
      by (simp only: abs_mult abs_of_nat)
    also have "\<dots> \<le> real n * (?x / 2 ^ 53)"
      using qe by (intro mult_left_mono) simp_all
    also have "\<dots> = ?v / 2 ^ 53" by simp
    finally show ?thesis .
  qed
  have "?v / 2 ^ 53 \<le> ?v" using v_pos by (simp add: field_simps)
  with yv have y_le: "?y \<le> ?v + ?v / 2 ^ 53" "?y \<le> 2 * ?v" by linarith+
  have "pow2 63 \<le> pow2 1023" by (rule pow2_mono) simp
  moreover have "2 * ?v < 2 ^ 63" using v_hi by simp
  ultimately have y_hi: "?y < pow2 1023" using y_le(2) p63 by linarith
  from round_to_f64_normal [OF y_lo y_hi] obtain p where
    p: "round_to_f64 ?y = Finite p" and pe: "\<bar>p - ?y\<bar> \<le> ?y / 2 ^ 53"
    by blast
  have pv: "\<bar>p - ?v\<bar> \<le> ?v / 2 ^ 51"
  proof -
    have "?y / 2 ^ 53 \<le> (2 * ?v) / 2 ^ 53"
      using y_le(2) by (intro divide_right_mono) simp_all
    with pe have "\<bar>p - ?y\<bar> \<le> (2 * ?v) / 2 ^ 53" by linarith
    then have "\<bar>p - ?v\<bar> \<le> (2 * ?v) / 2 ^ 53 + ?v / 2 ^ 53"
      using yv by (rule abs_chain)
    also have "\<dots> \<le> ?v / 2 ^ 51" using v_pos by (simp add: field_simps)
    finally show ?thesis .
  qed
  have r: "np_round p = np_round ?v"
    using far pv by (rule np_round_stable)
  let ?m = "np_round ?v"
  from np_round_near [of ?v] v_pos v_hi
  have "- 1 < real_of_int ?m" "real_of_int ?m < 2 ^ 62 + 1" by linarith+
  then have "real_of_int (- 1) < real_of_int ?m" "real_of_int ?m < real_of_int (2 ^ 62 + 1)"
    by simp_all
  then have "- 1 < ?m" "?m < 2 ^ 62 + 1" by (simp_all only: of_int_less_iff)
  then have m: "0 \<le> ?m" "?m < 2 ^ 63" by simp_all
  from m have mr: "- (2 ^ 63) \<le> real_of_int ?m" "real_of_int ?m < 2 ^ 63" "0 \<le> real_of_int ?m"
    by simp_all
  from n(2) have "round_to_f64 (real n) = Finite (real n)" by (rule round_to_f64_nat)
  then have "f64_rint (f64_mul (round_to_f64 (real n)) (round_to_f64 ?x)) =
               Finite (of_int ?m)"
    by (simp add: q p r)
  then show ?thesis using mr by simp
qed

lemma compute_target_shape_axes:
  assumes "length current_shape = 3" and "length cs = 3" and "length ts = 3"
    and "\<forall>t \<in> set ts. 0 < t"
  shows "\<exists>target. compute_target_shape current_shape (map Finite cs) (map Finite ts) = Inr target \<and>
           length target = 3 \<and>
           (\<forall>i < 3. target ! i =
              f64_to_int64 (f64_rint (f64_mul (round_to_f64 (real (current_shape ! i)))
                                              (round_to_f64 (cs ! i / ts ! i)))))"
proof -
  have nz: "ts ! i \<noteq> 0" if "i < 3" for i
    using assms(3,4) that by (metis less_irrefl nth_mem)
  show ?thesis
    using assms(1-3) nz by (simp add: compute_target_shape_def broadcast2_def)
qed

lemma example_target_shape:
  "compute_target_shape [32, 64, 64] (map round_to_f64 [5 / 2, 7 / 10, 7 / 10])
     (map round_to_f64 [1, 1 / 2, 1 / 2]) = Inr [80, 90, 90]"
  by (simp add: compute_target_shape_def broadcast2_def f64_eval)

lemma tie_distance_least:
  fixes k :: int
  shows "tie_distance v \<le> \<bar>v - (of_int k + 1 / 2)\<bar>"
proof -
  let ?f = "\<lfloor>v\<rfloor>"
  have f: "of_int ?f \<le> v" "v < of_int ?f + 1" by linarith+
  then have d: "tie_distance v \<le> 1 / 2"
    unfolding tie_distance_def by linarith
  consider "k = ?f" | "k < ?f" | "?f < k" by linarith
  then show ?thesis
  proof cases
    case 1
    then show ?thesis by (simp add: tie_distance_def)
  next
    case 2
    then have "real_of_int k + 1 \<le> of_int ?f" by linarith
    with f d show ?thesis by linarith
  next
    case 3
    then have "real_of_int ?f + 1 \<le> of_int k" by linarith
    with f d show ?thesis by linarith
  qed
qed

text \<open>
  Claim C1, as the code has it. For three-component shapes and positive float64 spacings
  the computation of the target shape succeeds and gives, on each axis by itself, the
  int64 value of the rounding (half to even) of the float64 product of the shape component
  and the float64 quotient \<open>current_spacing / target_spacing\<close>. This is
  \<open>round(current_shape * current_spacing / target_spacing)\<close> of the exact value \<open>v\<close>
  on every axis where \<open>v\<close> is farther than \<open>v / 2^51\<close> from the nearest half-integer
  (the shape component being positive and below \<open>2^53\<close>, the quotient of the spacings at
  least \<open>2^-1022\<close> and \<open>v\<close> below \<open>2^62\<close>). For shape (32,64,64), spacing (2.5,0.7,0.7)
  and target spacing (1.0,0.5,0.5) the target shape is (80,90,90).
\<close>

theorem target_shape_law:
  assumes "length current_shape = 3" and "length cs = 3" and "length ts = 3"
    and "\<forall>c \<in> set cs. 0 < c" and "\<forall>t \<in> set ts. 0 < t"
  shows "(\<exists>target. compute_target_shape current_shape (map Finite cs) (map Finite ts) = Inr target \<and>
            length target = 3 \<and>
            (\<forall>i < 3. target ! i =
               f64_to_int64 (f64_rint (f64_mul (round_to_f64 (real (current_shape ! i)))
                                               (round_to_f64 (cs ! i / ts ! i))))) \<and>
            (\<forall>i < 3. 0 < current_shape ! i \<and> current_shape ! i < 2 ^ 53 \<and>
                 pow2 (- 1022) \<le> cs ! i / ts ! i \<and>
                 real (current_shape ! i) * cs ! i / ts ! i < 2 ^ 62 \<and>
                 real (current_shape ! i) * cs ! i / ts ! i / 2 ^ 51 <
                   tie_distance (real (current_shape ! i) * cs ! i / ts ! i) \<longrightarrow>
               target ! i = np_round (real (current_shape ! i) * cs ! i / ts ! i))) \<and>
         compute_target_shape [32, 64, 64] (map round_to_f64 [5 / 2, 7 / 10, 7 / 10])
           (map round_to_f64 [1, 1 / 2, 1 / 2]) = Inr [80, 90, 90]"
proof -
  from compute_target_shape_axes [OF assms(1-3,5)] obtain target where
    t: "compute_target_shape current_shape (map Finite cs) (map Finite ts) = Inr target"
       "length target = 3" and
    f: "\<forall>i < 3. target ! i =
          f64_to_int64 (f64_rint (f64_mul (round_to_f64 (real (current_shape ! i)))
                                          (round_to_f64 (cs ! i / ts ! i))))"
    by blast
  have "target ! i = np_round (real (current_shape ! i) * cs ! i / ts ! i)"
    if i: "i < 3" and n: "0 < current_shape ! i" "current_shape ! i < 2 ^ 53"
      and q: "pow2 (- 1022) \<le> cs ! i / ts ! i"
      and v: "real (current_shape ! i) * cs ! i / ts ! i < 2 ^ 62"
      and far: "real (current_shape ! i) * cs ! i / ts ! i / 2 ^ 51 <
                  tie_distance (real (current_shape ! i) * cs ! i / ts ! i)"
    for i
  proof -
    from i assms(2,4) have c: "0 < cs ! i" by simp
    from i assms(3,5) have p: "0 < ts ! i" by simp
    have "real (current_shape ! i) * cs ! i / ts ! i / 2 ^ 51 <
            \<bar>real (current_shape ! i) * cs ! i / ts ! i - (of_int k + 1 / 2)\<bar>" for k :: int
      using far tie_distance_least [of "real (current_shape ! i) * cs ! i / ts ! i" k]
      by linarith
    with n c p q v have
      "f64_to_int64 (f64_rint (f64_mul (round_to_f64 (real (current_shape ! i)))
                                       (round_to_f64 (cs ! i / ts ! i)))) =
         np_round (real (current_shape ! i) * cs ! i / ts ! i)"
      by (rule target_component_exact)
    with f i show ?thesis by simp
  qed
  with t f example_target_shape show ?thesis by blast
qed

theorem target_shape_law_witness:
  "\<exists>target. compute_target_shape [57, 2, 3] [Finite (13 / 8), Finite 1, Finite (1 / 2)]
       [Finite (3 / 4), Finite 2, Finite 1] = Inr target \<and>
     target ! 0 = 123 \<and> target ! 1 = np_round (2 * 1 / 2) \<and> target ! 2 = 2"
proof -
  have h: "length [57, 2, 3 :: nat] = 3" "length [13 / 8, 1, 1 / 2 :: real] = 3"
    "length [3 / 4, 2, 1 :: real] = 3"
    "\<forall>c \<in> set [13 / 8, 1, 1 / 2 :: real]. 0 < c" "\<forall>t \<in> set [3 / 4, 2, 1 :: real]. 0 < t"
    by simp_all
  from target_shape_law [OF h] obtain target where
    t: "compute_target_shape [57, 2, 3] (map Finite [13 / 8, 1, 1 / 2])
          (map Finite [3 / 4, 2, 1]) = Inr target" and
    f: "\<forall>i < 3. target ! i =
          f64_to_int64 (f64_rint (f64_mul (round_to_f64 (real ([57, 2, 3] ! i)))
                                          (round_to_f64 ([13 / 8, 1, 1 / 2] ! i / [3 / 4, 2, 1] ! i))))" and
    e: "\<forall>i < 3. 0 < [57, 2, 3 :: nat] ! i \<and> [57, 2, 3 :: nat] ! i < 2 ^ 53 \<and>
          pow2 (- 1022) \<le> [13 / 8, 1, 1 / 2] ! i / [3 / 4, 2, 1] ! i \<and>
          real ([57, 2, 3] ! i) * [13 / 8, 1, 1 / 2] ! i / [3 / 4, 2, 1] ! i < 2 ^ 62 \<and>
          real ([57, 2, 3] ! i) * [13 / 8, 1, 1 / 2] ! i / [3 / 4, 2, 1] ! i / 2 ^ 51 <
            tie_distance (real ([57, 2, 3] ! i) * [13 / 8, 1, 1 / 2] ! i / [3 / 4, 2, 1] ! i) \<longrightarrow>
          target ! i = np_round (real ([57, 2, 3] ! i) * [13 / 8, 1, 1 / 2] ! i / [3 / 4, 2, 1] ! i)"
    by blast
  from f [rule_format, of 0] have "target ! 0 = 123"
    by (simp add: f64_eval)
  moreover from e [rule_format, of 1] have "target ! 1 = np_round (2 * 1 / 2)"
    by (simp add: pow2_def tie_distance_def)
  moreover from f [rule_format, of 2] have "target ! 2 = 2"
    by (simp add: f64_eval)
  ultimately show ?thesis using t by auto
qed

text \<open>
  Claim C1 as stated fails: for shape 57 and the spacings 1.625 and 0.75, both float64
  values, the exact value of \<open>57 * 1.625 / 0.75\<close> is 123.5, which rounds to 124, but the
  code multiplies the shape by the float64 quotient 2.1666666666666665 and obtains 123.
\<close>

theorem target_shape_tie_counterexample:
  "compute_target_shape [57, 1, 1] [Finite (13 / 8), Finite 1, Finite 1]
     [Finite (3 / 4), Finite 1, Finite 1] = Inr [123, 1, 1] \<and>
   round_to_f64 (13 / 8) = Finite (13 / 8) \<and> round_to_f64 (3 / 4) = Finite (3 / 4) \<and>
   np_round (57 * (13 / 8) / (3 / 4)) = 124"
  by (simp add: compute_target_shape_def broadcast2_def f64_eval)

text \<open>
  Claim C8 as stated fails: with a resampling function that accepts every target shape,
  the stage returns a volume for a target shape whose first component rounds to zero; no
  error is raised by the stage.
\<close>

theorem degenerate_target_counterexample:
  "resampling_stage zero_fill_resampler unsupported_config zero_volume
     [round_to_f64 (2 / 5), Finite 1, Finite 1] =
     Inr \<lparr>shape = [0, 2, 2], data = []\<rparr>"
  by (simp add: resampling_stage_def resample_to_def compute_target_shape_def broadcast2_def
      unsupported_config_def subscript_def py_get_def as_f64s_def zero_volume_def
      f64_eval zero_fill_resampler_def first_channel_def tabulate3_def)

text \<open>
  Claim C8, as the code has it. The stage does not check the target shape: when the
  rounding yields a component that is not positive, the stage still calls the imported
  resampling function with that shape, and its outcome is that call's.
\<close>

theorem degenerate_target_is_passed_on:
  assumes "compute_target_shape (shape current) current_spacing target_spacing = Inr target"
    and "\<exists>d \<in> set target. d \<le> 0"
  shows "resample_to resample_data_or_seg_to_shape resample_kwargs current current_spacing
           target_spacing =
         py_bind (resample_data_or_seg_to_shape [current] target current_spacing target_spacing
                    resample_kwargs) first_channel"
  using assms(1) by (simp add: resample_to_def)

theorem degenerate_target_is_passed_on_witness:
  "resample_to zero_fill_resampler default_data_kwargs zero_volume
     [round_to_f64 (2 / 5), Finite 1, Finite 1] [Finite 1, Finite 1, Finite 1] =
     Inr \<lparr>shape = [0, 2, 2], data = []\<rparr>"
proof -
  have c: "compute_target_shape (shape zero_volume) [round_to_f64 (2 / 5), Finite 1, Finite 1]
             [Finite 1, Finite 1, Finite 1] = Inr [0, 2, 2]"
    by (simp add: compute_target_shape_def broadcast2_def zero_volume_def f64_eval)
  have d: "\<exists>d \<in> set [0, 2, 2 :: int]. d \<le> 0" by simp
  from degenerate_target_is_passed_on [OF c d, of zero_fill_resampler default_data_kwargs]
  show ?thesis
    by (simp add: zero_fill_resampler_def first_channel_def tabulate3_def)
qed

section \<open>Properties of the transpose stage\<close>

lemma length3_cases:
  assumes "length xs = 3"
  obtains a b c where "xs = [a, b, c]"
  using assms by (auto simp: numeral_3_eq_3 length_Suc_conv)

lemma small_int_cases:
  assumes "0 \<le> (x::int)" and "x < 3"
  shows "x = 0 \<or> x = 1 \<or> x = 2"
  using assms by arith

lemma mutual_inverses_cases:
  assumes "mutual_inverses forward backward"
  shows "(forward, backward) \<in> set axis_permutations"
proof -
  from assms obtain a b c where f: "forward = [a, b, c]"
    by (auto simp: mutual_inverses_def elim: length3_cases)
  from assms obtain d e g where b: "backward = [d, e, g]"
    by (auto simp: mutual_inverses_def elim: length3_cases)
  from assms f b have r: "a = 0 \<or> a = 1 \<or> a = 2" "b = 0 \<or> b = 1 \<or> b = 2" "c = 0 \<or> c = 1 \<or> c = 2"
    "d = 0 \<or> d = 1 \<or> d = 2" "e = 0 \<or> e = 1 \<or> e = 2" "g = 0 \<or> g = 1 \<or> g = 2"
    by (auto simp: mutual_inverses_def intro: small_int_cases)
  from assms have i: "[a, b, c] ! nat d = 0" "[a, b, c] ! nat e = 1" "[a, b, c] ! nat g = 2"
    "[d, e, g] ! nat a = 0" "[d, e, g] ! nat b = 1" "[d, e, g] ! nat c = 2"
    unfolding f b mutual_inverses_def by simp_all
  from r(4) r(5) r(6) i show ?thesis
    unfolding f b axis_permutations_def by (elim disjE) (simp_all add: nth_Cons')
qed


lemma well_formed_tabulate3: "length s = 3 \<Longrightarrow> well_formed (tabulate3 s f)"
  by (simp add: well_formed_def tabulate3_def list_all_length)

lemma shape_tabulate3 [simp]: "shape (tabulate3 s f) = s"
  by (simp add: tabulate3_def)

lemma at3_tabulate3:
  "i < s ! 0 \<Longrightarrow> j < s ! 1 \<Longrightarrow> k < s ! 2 \<Longrightarrow> at3 (tabulate3 s f) i j k = f i j k"
  by (simp add: at3_def tabulate3_def)

lemma ndarray_eqI:
  assumes "well_formed a" and "well_formed b" and "shape b = shape a"
    and "\<And>i j k. i < shape a ! 0 \<Longrightarrow> j < shape a ! 1 \<Longrightarrow> k < shape a ! 2 \<Longrightarrow>
           at3 b i j k = at3 a i j k"
  shows "b = a"
proof -
  have "data b = data a"
  proof (rule nth_equalityI)
    show "length (data b) = length (data a)"
      using well_formed_lengths(2) [OF assms(1)] well_formed_lengths(2) [OF assms(2)] assms(3)
      by simp
  next
    fix i assume "i < length (data b)"
    then have i: "i < shape a ! 0"
      using well_formed_lengths(2) [OF assms(2)] assms(3) by simp
    show "data b ! i = data a ! i"
    proof (rule nth_equalityI)
      show "length (data b ! i) = length (data a ! i)"
        using well_formed_lengths(3) [OF assms(1), of i] well_formed_lengths(3) [OF assms(2), of i]
          assms(3) i by simp
    next
      fix j assume "j < length (data b ! i)"
      then have j: "j < shape a ! 1"
        using well_formed_lengths(3) [OF assms(2), of i] assms(3) i by simp
      show "data b ! i ! j = data a ! i ! j"
      proof (rule nth_equalityI)
        show "length (data b ! i ! j) = length (data a ! i ! j)"
          using well_formed_lengths(4) [OF assms(1), of i j]
            well_formed_lengths(4) [OF assms(2), of i j] assms(3) i j by simp
      next
        fix k assume "k < length (data b ! i ! j)"
        then have k: "k < shape a ! 2"
          using well_formed_lengths(4) [OF assms(2), of i j] assms(3) i j by simp
        from assms(4) [OF i j k] show "data b ! i ! j ! k = data a ! i ! j ! k"
          by (simp add: at3_def)
      qed
    qed
  qed
  with assms(3) show ?thesis by simp
qed

lemma transpose_roundtrip_pair:
  assumes wf: "well_formed a" and sp: "length spacing = 3"
    and p: "(forward, backward) \<in> set axis_permutations"
  shows "py_bind (transpose_volume a spacing forward)
           (\<lambda>(t, ts). transpose_volume t ts backward) = Inr (a, spacing)"
proof -
  from well_formed_lengths(1) [OF wf] obtain s0 s1 s2 where s: "shape a = [s0, s1, s2]"
    by (rule length3_cases)
  from sp obtain x y z where v: "spacing = [x, y, z]" by (rule length3_cases)
  have e: "tabulate3 [s0, s1, s2] f = a"
    if "\<And>i j k. i < s0 \<Longrightarrow> j < s1 \<Longrightarrow> k < s2 \<Longrightarrow> f i j k = at3 a i j k" for f
    by (rule ndarray_eqI [OF wf]) (simp_all add: well_formed_tabulate3 s at3_tabulate3 that)
  from p show ?thesis
    unfolding axis_permutations_def
    by (auto simp: transpose_volume_def np_transpose_def take_indices_def normalize_index_def
        s v Let_def at3_tabulate3 intro!: e)
qed


text \<open>
  Claim C7. For every volume and every pair of three-element permutations of the axes
  that are inverses of each other, the transpose with the forward permutation succeeds,
  and the transpose of its result with the backward permutation returns the original array
  and the original spacing vector.
\<close>

theorem transpose_round_trip:
  assumes "well_formed current" and "length spacing = 3"
    and "mutual_inverses forward backward"
  shows "\<exists>t ts. transpose_volume current spacing forward = Inr (t, ts) \<and>
           transpose_volume t ts backward = Inr (current, spacing)"
proof -
  from transpose_roundtrip_pair [OF assms(1,2) mutual_inverses_cases [OF assms(3)]]
  obtain r where "transpose_volume current spacing forward = Inr r"
    and "(case r of (t, ts) \<Rightarrow> transpose_volume t ts backward) = Inr (current, spacing)"
    unfolding py_bind_eq_Inr by blast
  then show ?thesis by (cases r) auto
qed

theorem transpose_round_trip_witness:
  "\<exists>t ts. transpose_volume example_volume [5 / 2, 7 / 10, 1] [1, 2, 0] = Inr (t, ts) \<and>
     shape t = [2, 3, 2] \<and> ts = [7 / 10, 1, 5 / 2] \<and>
     transpose_volume t ts [2, 0, 1] = Inr (example_volume, [5 / 2, 7 / 10, 1])"
proof -
  have m: "mutual_inverses [1, 2, 0] [2, 0, 1]"
    by (simp add: mutual_inverses_def)
  have l: "length [5 / 2, 7 / 10, 1 :: real] = 3" by simp
  from transpose_round_trip [OF example_volume_well_formed l m] obtain t ts where
    a: "transpose_volume example_volume [5 / 2, 7 / 10, 1] [1, 2, 0] = Inr (t, ts)" and
    b: "transpose_volume t ts [2, 0, 1] = Inr (example_volume, [5 / 2, 7 / 10, 1])"
    by blast
  from a have "shape t = [2, 3, 2] \<and> ts = [7 / 10, 1, 5 / 2]"
    by (auto simp: transpose_volume_def np_transpose_def take_indices_def normalize_index_def
        example_volume_def)
  with a b show ?thesis by blast
qed

section \<open>Properties of the cropping stage\<close>

lemma nonzero_mask_nth:
  assumes "well_formed a" and "i < shape a ! 0" and "j < shape a ! 1" and "k < shape a ! 2"
  shows "nonzero_mask a ! i ! j ! k = (at3 a i j k \<noteq> 0)"
  using assms well_formed_lengths [OF assms(1)] by (simp add: nonzero_mask_def at3_def)

lemma ex3_cong:
  assumes "\<And>i j k. i < a \<Longrightarrow> j < b \<Longrightarrow> k < c \<Longrightarrow> P i j k = Q i j k"
  shows "(\<exists>i < (a::nat). \<exists>j < (b::nat). \<exists>k < (c::nat). P i j k) =
         (\<exists>i < a. \<exists>j < b. \<exists>k < c. Q i j k)"
  using assms by blast

lemma ex2_cong:
  assumes "\<And>j k. j < b \<Longrightarrow> k < c \<Longrightarrow> P j k = Q j k"
  shows "(\<exists>j < (b::nat). \<exists>k < (c::nat). P j k) = (\<exists>j < b. \<exists>k < c. Q j k)"
  using assms by blast

lemma mask_any_iff:
  assumes "well_formed a"
  shows "mask_any (nonzero_mask a) = (\<not> all_zero a)"
proof -
  note w = well_formed_lengths [OF assms]
  have "mask_any (nonzero_mask a) =
          (\<exists>plane \<in> set (data a). \<exists>row \<in> set plane. \<exists>x \<in> set row. x \<noteq> 0)"
    by (simp add: mask_any_def nonzero_mask_def list_ex_iff)
  also have "\<dots> = (\<exists>i < length (data a). \<exists>j < length (data a ! i).
                      \<exists>k < length (data a ! i ! j). data a ! i ! j ! k \<noteq> 0)"
    by (metis in_set_conv_nth)
  also have "\<dots> = (\<exists>i < shape a ! 0. \<exists>j < shape a ! 1. \<exists>k < shape a ! 2. at3 a i j k \<noteq> 0)"
    (is "?L = ?R")
  proof
    assume ?L
    then obtain i j k where "i < length (data a)" "j < length (data a ! i)"
      "k < length (data a ! i ! j)" "data a ! i ! j ! k \<noteq> 0" by blast
    with w have "i < shape a ! 0" "j < shape a ! 1" "k < shape a ! 2" "at3 a i j k \<noteq> 0"
      by (simp_all add: at3_def)
    then show ?R by blast
  next
    assume ?R
    then obtain i j k where "i < shape a ! 0" "j < shape a ! 1" "k < shape a ! 2"
      "at3 a i j k \<noteq> 0" by blast
    with w have "i < length (data a)" "j < length (data a ! i)"
      "k < length (data a ! i ! j)" "data a ! i ! j ! k \<noteq> 0"
      by (simp_all add: at3_def)
    then show ?L by blast
  qed
  finally show ?thesis by (simp add: all_zero_def)
qed

lemma axis_cases:
  assumes "axis < (3::nat)"
  obtains "axis = 0" | "axis = 1" | "axis = 2"
  using assms by arith

lemma length_axis_mask: "axis < 3 \<Longrightarrow> length (axis_mask m s axis) = s ! axis"
  by (erule axis_cases) (simp_all add: axis_mask_def)

lemma axis_mask_nth:
  assumes "well_formed a" and "axis < 3" and "c < shape a ! axis"
  shows "axis_mask (nonzero_mask a) (shape a) axis ! c = nonzero_on a axis c"
  using assms(2)
proof (cases rule: axis_cases)
  case 1
  with assms(3) have c: "c < shape a ! 0" by simp
  have "axis_mask (nonzero_mask a) (shape a) axis ! c =
          (\<exists>j < shape a ! 1. \<exists>k < shape a ! 2. nonzero_mask a ! c ! j ! k)"
    using 1 c by (simp add: axis_mask_def list_ex_iff Bex_def)
  also have "\<dots> = (\<exists>j < shape a ! 1. \<exists>k < shape a ! 2. at3 a c j k \<noteq> 0)"
    by (rule ex2_cong) (rule nonzero_mask_nth [OF assms(1) c])
  also have "\<dots> = nonzero_on a axis c"
    unfolding nonzero_on_def using 1 c by auto
  finally show ?thesis .
next
  case 2
  with assms(3) have c: "c < shape a ! 1" by simp
  have "axis_mask (nonzero_mask a) (shape a) axis ! c =
          (\<exists>i < shape a ! 0. \<exists>k < shape a ! 2. nonzero_mask a ! i ! c ! k)"
    using 2 c by (simp add: axis_mask_def list_ex_iff Bex_def)
  also have "\<dots> = (\<exists>i < shape a ! 0. \<exists>k < shape a ! 2. at3 a i c k \<noteq> 0)"
    by (rule ex2_cong) (rule nonzero_mask_nth [OF assms(1) _ c])
  also have "\<dots> = nonzero_on a axis c"
    unfolding nonzero_on_def using 2 c by auto
  finally show ?thesis .
next
  case 3
  with assms(3) have c: "c < shape a ! 2" by simp
  have "axis_mask (nonzero_mask a) (shape a) axis ! c =
          (\<exists>i < shape a ! 0. \<exists>j < shape a ! 1. nonzero_mask a ! i ! j ! c)"
    using 3 c by (simp add: axis_mask_def list_ex_iff Bex_def)
  also have "\<dots> = (\<exists>i < shape a ! 0. \<exists>j < shape a ! 1. at3 a i j c \<noteq> 0)"
    by (rule ex2_cong) (rule nonzero_mask_nth [OF assms(1) _ _ c])
  also have "\<dots> = nonzero_on a axis c"
    unfolding nonzero_on_def using 3 c by auto
  finally show ?thesis .
qed

lemma set_np_where: "set (np_where bs) = {i. i < length bs \<and> bs ! i}"
  by (auto simp: np_where_def)

lemma sorted_np_where: "sorted (np_where bs)"
  by (simp add: np_where_def sorted_wrt_filter)

lemma sorted_le_last: "sorted xs \<Longrightarrow> x \<in> set xs \<Longrightarrow> (x::nat) \<le> last xs"
  by (induction xs) auto

lemma hd_np_where:
  assumes "np_where bs \<noteq> []"
  shows "hd (np_where bs) < length bs" and "bs ! hd (np_where bs)"
    and "\<And>i. i < length bs \<Longrightarrow> bs ! i \<Longrightarrow> hd (np_where bs) \<le> i"
proof -
  from assms have "hd (np_where bs) \<in> set (np_where bs)" by simp
  then show "hd (np_where bs) < length bs" and "bs ! hd (np_where bs)"
    by (simp_all add: set_np_where)
  fix i assume "i < length bs" and "bs ! i"
  then have "i \<in> set (np_where bs)" by (simp add: set_np_where)
  with assms sorted_np_where [of bs] show "hd (np_where bs) \<le> i"
    by (cases "np_where bs") auto
qed

lemma last_np_where:
  assumes "np_where bs \<noteq> []"
  shows "last (np_where bs) < length bs" and "bs ! last (np_where bs)"
    and "\<And>i. i < length bs \<Longrightarrow> bs ! i \<Longrightarrow> i \<le> last (np_where bs)"
proof -
  from assms have "last (np_where bs) \<in> set (np_where bs)" by simp
  then show "last (np_where bs) < length bs" and "bs ! last (np_where bs)"
    by (simp_all add: set_np_where)
  fix i assume "i < length bs" and "bs ! i"
  then have "i \<in> set (np_where bs)" by (simp add: set_np_where)
  with sorted_np_where [of bs] show "i \<le> last (np_where bs)"
    by (rule sorted_le_last)
qed

lemma nonzero_on_bound:
  assumes "axis < 3" and "nonzero_on a axis c"
  shows "c < shape a ! axis"
  using assms(1)
  by (cases rule: axis_cases) (use assms(2) in \<open>auto simp: nonzero_on_def\<close>)

lemma nonzero_onI:
  assumes "i < shape a ! 0" and "j < shape a ! 1" and "k < shape a ! 2" and "at3 a i j k \<noteq> 0"
  shows "nonzero_on a 0 i" and "nonzero_on a 1 j" and "nonzero_on a 2 k"
  using assms unfolding nonzero_on_def by auto

lemma not_all_zero_axis:
  assumes "\<not> all_zero a" and "axis < 3"
  shows "\<exists>c. nonzero_on a axis c"
proof -
  from assms(1) obtain i j k where "i < shape a ! 0" "j < shape a ! 1" "k < shape a ! 2"
    "at3 a i j k \<noteq> 0" unfolding all_zero_def by blast
  from nonzero_onI [OF this] have n: "nonzero_on a 0 i" "nonzero_on a 1 j" "nonzero_on a 2 k" .
  from assms(2) show ?thesis
    by (cases rule: axis_cases) (use n in auto)
qed

lemma axis_bbox_props:
  assumes wf: "well_formed a" and ax: "axis < 3" and nz: "\<not> all_zero a"
  shows "fst (axis_bbox (nonzero_mask a) (shape a) axis) <
           snd (axis_bbox (nonzero_mask a) (shape a) axis)"
    and "snd (axis_bbox (nonzero_mask a) (shape a) axis) \<le> shape a ! axis"
    and "nonzero_on a axis (fst (axis_bbox (nonzero_mask a) (shape a) axis))"
    and "nonzero_on a axis (snd (axis_bbox (nonzero_mask a) (shape a) axis) - 1)"
    and "\<And>c. nonzero_on a axis c \<Longrightarrow>
           fst (axis_bbox (nonzero_mask a) (shape a) axis) \<le> c \<and>
           c < snd (axis_bbox (nonzero_mask a) (shape a) axis)"
proof -
  let ?bs = "axis_mask (nonzero_mask a) (shape a) axis"
  have len: "length ?bs = shape a ! axis" by (rule length_axis_mask [OF ax])
  have nth: "?bs ! c = nonzero_on a axis c" if "c < shape a ! axis" for c
    by (rule axis_mask_nth [OF wf ax that])
  from not_all_zero_axis [OF nz ax] obtain c0 where c0: "nonzero_on a axis c0" ..
  with nonzero_on_bound [OF ax c0] nth len have "c0 \<in> set (np_where ?bs)"
    by (simp add: set_np_where)
  then have ne: "np_where ?bs \<noteq> []" by auto
  then have bb: "axis_bbox (nonzero_mask a) (shape a) axis =
                   (hd (np_where ?bs), last (np_where ?bs) + 1)"
    by (simp add: axis_bbox_def Let_def)
  note h = hd_np_where [OF ne] and l = last_np_where [OF ne]
  from h(1) l(1) h(3) [OF l(1) l(2)]
  show "fst (axis_bbox (nonzero_mask a) (shape a) axis) <
          snd (axis_bbox (nonzero_mask a) (shape a) axis)"
    by (simp add: bb)
  from l(1) len show "snd (axis_bbox (nonzero_mask a) (shape a) axis) \<le> shape a ! axis"
    by (simp add: bb)
  from h(1,2) len nth show "nonzero_on a axis (fst (axis_bbox (nonzero_mask a) (shape a) axis))"
    by (simp add: bb)
  from l(1,2) len nth
  show "nonzero_on a axis (snd (axis_bbox (nonzero_mask a) (shape a) axis) - 1)"
    by (simp add: bb)
  fix c assume c: "nonzero_on a axis c"
  from nonzero_on_bound [OF ax c] have "c < length ?bs" by (simp add: len)
  moreover from nonzero_on_bound [OF ax c] nth c have "?bs ! c" by simp
  ultimately have "hd (np_where ?bs) \<le> c" "c \<le> last (np_where ?bs)"
    by (rule h(3), rule l(3))
  then show "fst (axis_bbox (nonzero_mask a) (shape a) axis) \<le> c \<and>
             c < snd (axis_bbox (nonzero_mask a) (shape a) axis)"
    by (simp add: bb)
qed

lemma nth_py_slice:
  assumes "fst b + i < snd b" and "snd b \<le> length xs"
  shows "py_slice b xs ! i = xs ! (fst b + i)"
  using assms by (simp add: py_slice_def)

lemma length_py_slice:
  assumes "fst b \<le> snd b" and "snd b \<le> length xs"
  shows "length (py_slice b xs) = snd b - fst b"
  using assms by (simp add: py_slice_def)


lemma slice3_props:
  assumes wf: "well_formed a" and len: "length bbox = 3"
    and b: "\<And>n. n < 3 \<Longrightarrow> fst (bbox ! n) \<le> snd (bbox ! n) \<and> snd (bbox ! n) \<le> shape a ! n"
  shows "well_formed (slice3 bbox a)"
    and "\<And>n. n < 3 \<Longrightarrow> shape (slice3 bbox a) ! n = snd (bbox ! n) - fst (bbox ! n)"
    and "\<And>i j k. i < snd (bbox ! 0) - fst (bbox ! 0) \<Longrightarrow> j < snd (bbox ! 1) - fst (bbox ! 1) \<Longrightarrow>
           k < snd (bbox ! 2) - fst (bbox ! 2) \<Longrightarrow>
           at3 (slice3 bbox a) i j k =
             at3 a (fst (bbox ! 0) + i) (fst (bbox ! 1) + j) (fst (bbox ! 2) + k)"
proof -
  note w = well_formed_lengths [OF wf]
  have b0: "fst (bbox ! 0) \<le> snd (bbox ! 0)" "snd (bbox ! 0) \<le> shape a ! 0"
    and b1: "fst (bbox ! 1) \<le> snd (bbox ! 1)" "snd (bbox ! 1) \<le> shape a ! 1"
    and b2: "fst (bbox ! 2) \<le> snd (bbox ! 2)" "snd (bbox ! 2) \<le> shape a ! 2"
    using b [of 0] b [of 1] b [of 2] by simp_all
  show sh: "shape (slice3 bbox a) ! n = snd (bbox ! n) - fst (bbox ! n)" if "n < 3" for n
    using that b [OF that] w(1) by (simp add: slice3_def slice_len_def min_def)
  have l0: "length (data (slice3 bbox a)) = snd (bbox ! 0) - fst (bbox ! 0)"
    using b0 w(2) by (simp add: slice3_def length_py_slice)
  have p: "data (slice3 bbox a) ! i =
             map (py_slice (bbox ! 2)) (py_slice (bbox ! 1) (data a ! (fst (bbox ! 0) + i)))"
    if "i < snd (bbox ! 0) - fst (bbox ! 0)" for i
    using that b0 w(2) by (simp add: slice3_def length_py_slice nth_py_slice)
  have l1: "length (data (slice3 bbox a) ! i) = snd (bbox ! 1) - fst (bbox ! 1)"
    if "i < snd (bbox ! 0) - fst (bbox ! 0)" for i
    using that b0 b1 w(3) [of "fst (bbox ! 0) + i"] by (simp add: p length_py_slice)
  have r: "data (slice3 bbox a) ! i ! j =
             py_slice (bbox ! 2) (data a ! (fst (bbox ! 0) + i) ! (fst (bbox ! 1) + j))"
    if "i < snd (bbox ! 0) - fst (bbox ! 0)" "j < snd (bbox ! 1) - fst (bbox ! 1)" for i j
    using that b0 b1 w(3) [of "fst (bbox ! 0) + i"]
    by (simp add: p length_py_slice nth_py_slice)
  have l2: "length (data (slice3 bbox a) ! i ! j) = snd (bbox ! 2) - fst (bbox ! 2)"
    if "i < snd (bbox ! 0) - fst (bbox ! 0)" "j < snd (bbox ! 1) - fst (bbox ! 1)" for i j
    using that b0 b1 b2 w(4) [of "fst (bbox ! 0) + i" "fst (bbox ! 1) + j"]
    by (simp add: r length_py_slice)
  show "at3 (slice3 bbox a) i j k =
          at3 a (fst (bbox ! 0) + i) (fst (bbox ! 1) + j) (fst (bbox ! 2) + k)"
    if "i < snd (bbox ! 0) - fst (bbox ! 0)" "j < snd (bbox ! 1) - fst (bbox ! 1)"
      "k < snd (bbox ! 2) - fst (bbox ! 2)" for i j k
    using that b0 b1 b2 w(4) [of "fst (bbox ! 0) + i" "fst (bbox ! 1) + j"]
    by (simp add: at3_def r nth_py_slice)
  have "length (shape (slice3 bbox a)) = 3"
    using w(1) by (simp add: slice3_def)
  with l0 l1 l2 sh [of 0] sh [of 1] sh [of 2] show "well_formed (slice3 bbox a)"
    by (simp add: well_formed_def list_all_length)
qed


lemma crop_all_zero:
  assumes "well_formed a" and "all_zero a"
  shows "crop_to_nonzero a = (a, map (\<lambda>s. (0, s)) (shape a))"
  using assms by (simp add: crop_to_nonzero_def mask_any_iff)

lemma crop_nonzero:
  assumes "well_formed a" and "\<not> all_zero a"
  shows "crop_to_nonzero a =
           (slice3 (map (axis_bbox (nonzero_mask a) (shape a)) [0..<3]) a,
            map (axis_bbox (nonzero_mask a) (shape a)) [0..<3])"
  using assms well_formed_lengths(1) [OF assms(1)]
  by (simp add: crop_to_nonzero_def mask_any_iff Let_def)

text \<open>
  Claim C3. For every volume the cropping stage returns a result (the function is total:
  it has no failing branch): a bounding box of one closed-open interval per axis, inside
  the extents, and the array of the samples in the box. Every nonzero sample of the input
  lies in the box. If all samples are zero, the array is returned unchanged with the full
  extent of each axis as its box. Otherwise each interval is not empty and is minimal:
  there is a nonzero sample at its first index and one at its last index, so no interval
  can be made smaller, and the crop is not empty.
\<close>

theorem crop_bounding_box:
  assumes wf: "well_formed current"
  shows "\<exists>cropped bbox.
           crop_to_nonzero current = (cropped, bbox) \<and> length bbox = 3 \<and> well_formed cropped \<and>
           (\<forall>n < 3. snd (bbox ! n) \<le> shape current ! n \<and>
                    shape cropped ! n = snd (bbox ! n) - fst (bbox ! n)) \<and>
           (\<forall>i < shape cropped ! 0. \<forall>j < shape cropped ! 1. \<forall>k < shape cropped ! 2.
              at3 cropped i j k =
                at3 current (fst (bbox ! 0) + i) (fst (bbox ! 1) + j) (fst (bbox ! 2) + k)) \<and>
           (\<forall>i < shape current ! 0. \<forall>j < shape current ! 1. \<forall>k < shape current ! 2.
              at3 current i j k \<noteq> 0 \<longrightarrow>
                fst (bbox ! 0) \<le> i \<and> i < snd (bbox ! 0) \<and>
                fst (bbox ! 1) \<le> j \<and> j < snd (bbox ! 1) \<and>
                fst (bbox ! 2) \<le> k \<and> k < snd (bbox ! 2)) \<and>
           (if all_zero current
            then cropped = current \<and> bbox = map (\<lambda>s. (0, s)) (shape current)
            else \<forall>n < 3. fst (bbox ! n) < snd (bbox ! n) \<and>
                   nonzero_on current n (fst (bbox ! n)) \<and>
                   nonzero_on current n (snd (bbox ! n) - 1))"
proof (cases "all_zero current")
  case True
  note w = well_formed_lengths [OF wf]
  let ?bbox = "map (\<lambda>s. (0, s)) (shape current)"
  have n: "?bbox ! n = (0, shape current ! n)" if "n < 3" for n
    using that w(1) by simp
  have "crop_to_nonzero current = (current, ?bbox)"
    by (rule crop_all_zero [OF wf True])
  moreover have "length ?bbox = 3" using w(1) by simp
  moreover have "\<forall>n < 3. snd (?bbox ! n) \<le> shape current ! n \<and>
                   shape current ! n = snd (?bbox ! n) - fst (?bbox ! n)"
    by (simp add: n)
  moreover have "\<forall>i < shape current ! 0. \<forall>j < shape current ! 1. \<forall>k < shape current ! 2.
              at3 current i j k =
                at3 current (fst (?bbox ! 0) + i) (fst (?bbox ! 1) + j) (fst (?bbox ! 2) + k)"
    by (simp add: n)
  moreover have "\<forall>i < shape current ! 0. \<forall>j < shape current ! 1. \<forall>k < shape current ! 2.
              at3 current i j k \<noteq> 0 \<longrightarrow>
                fst (?bbox ! 0) \<le> i \<and> i < snd (?bbox ! 0) \<and>
                fst (?bbox ! 1) \<le> j \<and> j < snd (?bbox ! 1) \<and>
                fst (?bbox ! 2) \<le> k \<and> k < snd (?bbox ! 2)"
    by (simp add: n)
  ultimately show ?thesis using wf True by auto
next
  case False
  let ?bbox = "map (axis_bbox (nonzero_mask current) (shape current)) [0..<3]"
  let ?cropped = "slice3 ?bbox current"
  have n: "?bbox ! n = axis_bbox (nonzero_mask current) (shape current) n" if "n < 3" for n
    using that by simp
  have len: "length ?bbox = 3" by simp
  have lt: "fst (?bbox ! n) < snd (?bbox ! n)" if "n < 3" for n
    using axis_bbox_props(1) [OF wf that False] by (simp only: n [OF that])
  have le: "snd (?bbox ! n) \<le> shape current ! n" if "n < 3" for n
    using axis_bbox_props(2) [OF wf that False] by (simp only: n [OF that])
  have lo: "nonzero_on current n (fst (?bbox ! n))" if "n < 3" for n
    using axis_bbox_props(3) [OF wf that False] by (simp only: n [OF that])
  have hi: "nonzero_on current n (snd (?bbox ! n) - 1)" if "n < 3" for n
    using axis_bbox_props(4) [OF wf that False] by (simp only: n [OF that])
  have inside: "fst (?bbox ! n) \<le> c \<and> c < snd (?bbox ! n)"
    if "n < 3" "nonzero_on current n c" for n c
    using axis_bbox_props(5) [OF wf that(1) False that(2)] by (simp only: n [OF that(1)])
  have b: "fst (?bbox ! n) \<le> snd (?bbox ! n) \<and> snd (?bbox ! n) \<le> shape current ! n"
    if "n < 3" for n
    using lt [OF that] le [OF that] by simp
  note sl = slice3_props [OF wf len b]
  have c: "crop_to_nonzero current = (?cropped, ?bbox)"
    by (rule crop_nonzero [OF wf False])
  have sh: "\<forall>n < 3. snd (?bbox ! n) \<le> shape current ! n \<and>
              shape ?cropped ! n = snd (?bbox ! n) - fst (?bbox ! n)"
    using le sl(2) by blast
  have content:
    "\<forall>i < shape ?cropped ! 0. \<forall>j < shape ?cropped ! 1. \<forall>k < shape ?cropped ! 2.
       at3 ?cropped i j k =
         at3 current (fst (?bbox ! 0) + i) (fst (?bbox ! 1) + j) (fst (?bbox ! 2) + k)"
  proof (intro allI impI)
    fix i j k
    assume "i < shape ?cropped ! 0" "j < shape ?cropped ! 1" "k < shape ?cropped ! 2"
    then have "i < snd (?bbox ! 0) - fst (?bbox ! 0)" "j < snd (?bbox ! 1) - fst (?bbox ! 1)"
      "k < snd (?bbox ! 2) - fst (?bbox ! 2)"
      using sl(2) [of 0] sl(2) [of 1] sl(2) [of 2] by simp_all
    then show "at3 ?cropped i j k =
         at3 current (fst (?bbox ! 0) + i) (fst (?bbox ! 1) + j) (fst (?bbox ! 2) + k)"
      using sl(3) [of i j k] by blast
  qed
  have contain:
    "\<forall>i < shape current ! 0. \<forall>j < shape current ! 1. \<forall>k < shape current ! 2.
       at3 current i j k \<noteq> 0 \<longrightarrow>
         fst (?bbox ! 0) \<le> i \<and> i < snd (?bbox ! 0) \<and>
         fst (?bbox ! 1) \<le> j \<and> j < snd (?bbox ! 1) \<and>
         fst (?bbox ! 2) \<le> k \<and> k < snd (?bbox ! 2)"
  proof (intro allI impI)
    fix i j k
    assume "i < shape current ! 0" "j < shape current ! 1" "k < shape current ! 2"
      "at3 current i j k \<noteq> 0"
    from nonzero_onI [OF this]
    have "nonzero_on current 0 i" "nonzero_on current 1 j" "nonzero_on current 2 k" .
    with inside [of 0 i] inside [of 1 j] inside [of 2 k]
    show "fst (?bbox ! 0) \<le> i \<and> i < snd (?bbox ! 0) \<and>
          fst (?bbox ! 1) \<le> j \<and> j < snd (?bbox ! 1) \<and>
          fst (?bbox ! 2) \<le> k \<and> k < snd (?bbox ! 2)"
      by simp
  qed
  have tight: "\<forall>n < 3. fst (?bbox ! n) < snd (?bbox ! n) \<and>
                 nonzero_on current n (fst (?bbox ! n)) \<and>
                 nonzero_on current n (snd (?bbox ! n) - 1)"
    using lt lo hi by blast
  from c len sl(1) sh content contain tight False show ?thesis
    by (intro exI [of _ ?cropped] exI [of _ ?bbox]) (simp only: if_False simp_thms)
qed


lemma example_crop:
  "crop_to_nonzero example_volume =
     (\<lparr>shape = [2, 1, 2], data = [[[5, 0]], [[- 2000, 2]]]\<rparr>, [(0, 2), (1, 2), (1, 3)])"
  by code_simp

lemma zero_volume_well_formed: "well_formed zero_volume"
  by (simp add: well_formed_def zero_volume_def)

lemma zero_volume_all_zero: "all_zero zero_volume"
  by (auto simp: all_zero_def zero_volume_def at3_def nth_Cons')

theorem crop_bounding_box_witness:
  "\<exists>cropped bbox. crop_to_nonzero example_volume = (cropped, bbox) \<and>
     bbox = [(0, 2), (1, 2), (1, 3)] \<and> shape cropped = [2, 1, 2] \<and>
     at3 cropped 1 0 1 = 2 \<and>
     crop_to_nonzero zero_volume = (zero_volume, [(0, 1), (0, 2), (0, 2)])"
proof -
  from crop_bounding_box [OF example_volume_well_formed] obtain cropped bbox where
    c: "crop_to_nonzero example_volume = (cropped, bbox)" and
    f: "\<forall>i < shape cropped ! 0. \<forall>j < shape cropped ! 1. \<forall>k < shape cropped ! 2.
          at3 cropped i j k =
            at3 example_volume (fst (bbox ! 0) + i) (fst (bbox ! 1) + j) (fst (bbox ! 2) + k)"
    by blast
  from c example_crop have
    b: "bbox = [(0, 2), (1, 2), (1, 3)]" and s: "shape cropped = [2, 1, 2]"
    by auto
  from f [rule_format, of 1 0 1] have a: "at3 cropped 1 0 1 = 2"
    by (simp add: b s at3_def example_volume_def)
  from crop_bounding_box [OF zero_volume_well_formed] zero_volume_all_zero
  have "crop_to_nonzero zero_volume = (zero_volume, map (\<lambda>s. (0, s)) (shape zero_volume))"
    by auto
  then have z: "crop_to_nonzero zero_volume = (zero_volume, [(0, 1), (0, 2), (0, 2)])"
    by (simp add: zero_volume_def)
  from c b s a z show ?thesis by blast
qed

end
